theory Spec2Isabelle
  imports Main "HOL-Library.Sublist" "HOL-Library.Word"
begin

section \<open>Strings and errors\<close>

text \<open>
  Go strings are byte sequences; they are modelled as \<^typ>\<open>string\<close>. The three functions of
  package \<^verbatim>\<open>strings\<close> that \<^verbatim>\<open>runStartContainerErr\<close> calls are written out as the
  standard library computes them: \<^verbatim>\<open>HasPrefix\<close> compares the first \<^verbatim>\<open>len(prefix)\<close>
  bytes, \<^verbatim>\<open>TrimPrefix\<close> drops them when they match, \<^verbatim>\<open>Contains\<close> looks for an
  index at which the substring starts.
\<close>

definition HasPrefix :: "string \<Rightarrow> string \<Rightarrow> bool" where
  "HasPrefix s p = (length s \<ge> length p \<and> take (length p) s = p)"

definition TrimPrefix :: "string \<Rightarrow> string \<Rightarrow> string" where
  "TrimPrefix s p = (if HasPrefix s p then drop (length p) s else s)"

fun Contains :: "string \<Rightarrow> string \<Rightarrow> bool" where
  "Contains [] substr = (substr = [])"
| "Contains (c # s) substr = (HasPrefix (c # s) substr \<or> Contains s substr)"

text \<open>Decimal rendering of an integer, as the verb \<^verbatim>\<open>%d\<close> of \<^verbatim>\<open>fmt\<close> prints it.\<close>

fun digits :: "nat \<Rightarrow> string" where
  "digits n = (if n < 10 then [char_of (48 + n)]
               else digits (n div 10) @ [char_of (48 + n mod 10)])"

definition itoa :: "int \<Rightarrow> string" where
  "itoa i = (if i < 0 then CHR ''-'' # digits (nat (- i)) else digits (nat i))"

text \<open>
  The error values that \<^verbatim>\<open>CmdRun\<close> handles: values made by \<^verbatim>\<open>fmt.Errorf\<close> (and any
  error a collaborator returns, which is known by its text only), the sentinel
  \<^verbatim>\<open>httputil.ErrPersistEOF\<close>, which the code compares by identity, and
  \<^verbatim>\<open>Cli.StatusError{StatusCode: n}\<close>, the error that carries a process exit code.
\<close>

datatype error =
    ErrorString string
  | ErrPersistEOF
  | StatusError int

text \<open>
  Modelled from the spec: the method \<^verbatim>\<open>Error()\<close> of \<open>StatusError\<close>, which is declared
  in package \<^verbatim>\<open>cli\<close> and is not among the files at hand. The spec says of it only that
  it carries the exit code; its text is taken to be \<^verbatim>\<open>Status: , Code: n\<close>, and nothing
  below depends on that text. \<open>ErrPersistEOF\<close> has the text the Go library gives it.
\<close>

fun Error :: "error \<Rightarrow> string" where
  "Error (ErrorString s) = s"
| "Error ErrPersistEOF = ''persistent connection closed''"
| "Error (StatusError n) = ''Status: , Code: '' @ itoa n"

definition errCmdNotFound :: string where
  "errCmdNotFound = ''not found or does not exist''"

definition errCmdCouldNotBeInvoked :: string where
  "errCmdCouldNotBeInvoked = ''could not be invoked''"

text \<open>
  \<^verbatim>\<open>runStartContainerErr\<close>: the exit code starts at 125 and is replaced only inside the
  branch guarded by the prefix test; the two phrases are tried in the order of the source.
\<close>

definition runStartContainerErr :: "error \<Rightarrow> error" where
  "runStartContainerErr err =
     (let trimmedErr = TrimPrefix (Error err) ''Error response from daemon: '' in
      if HasPrefix trimmedErr ''Container command'' then
        (if Contains trimmedErr errCmdNotFound then StatusError 127
         else if Contains trimmedErr errCmdCouldNotBeInvoked then StatusError 126
         else StatusError 125)
      else StatusError 125)"

section \<open>The container identifier file\<close>

text \<open>
  The file system is a map from paths to contents; a content is a \<^typ>\<open>string\<close>, so the
  conversion \<^verbatim>\<open>[]byte(id)\<close> is the identity. An open \<^verbatim>\<open>*os.File\<close> knows its path,
  its write position and whether it has been closed.

  Modelled from the spec: the declaration of \<^verbatim>\<open>cidFile\<close>, which is not among the files
  at hand. Its fields are the three that \<^verbatim>\<open>Close\<close> and \<^verbatim>\<open>Write\<close> use and that the
  data model of the spec lists: the path, the open handle and the flag \<open>written\<close>. The
  field \<^verbatim>\<open>file\<close> is written \<open>file'\<close>.
\<close>

type_synonym filesystem = "string \<rightharpoonup> string"

record os_File =
  name :: string
  offset :: nat
  closed :: bool

record cidFile =
  path :: string
  file' :: os_File
  written :: bool

text \<open>
  Writing \<open>b\<close> at position \<open>off\<close> of a content: the bytes before \<open>off\<close> stay (a gap is
  filled with zero bytes), \<open>b\<close> replaces what it covers, the rest stays.
\<close>

definition write_at :: "nat \<Rightarrow> string \<Rightarrow> string \<Rightarrow> string" where
  "write_at off b c =
     take off c @ replicate (off - length c) (CHR 0x00) @ b @ drop (off + length b) c"

text \<open>
  \<^verbatim>\<open>(*os.File).Write\<close>. Whether the operating system accepts the write is not decided by
  the program: the outcome \<open>fault\<close> is \<open>None\<close> when all of \<open>b\<close> is written, and
  \<open>Some (n, e)\<close> when the write stops with error \<open>e\<close> after \<open>n\<close> bytes. A path that is
  no longer in the file system receives nothing.
\<close>

definition File_Write ::
  "(nat \<times> error) option \<Rightarrow> os_File \<Rightarrow> string \<Rightarrow> filesystem \<Rightarrow>
     (os_File \<times> filesystem) \<times> (nat \<times> error option)" where
  "File_Write fault f b fs =
     (let done = (case fault of None \<Rightarrow> b | Some (n, e) \<Rightarrow> take n b);
          fs' = (case fs (name f) of
                   None \<Rightarrow> fs
                 | Some c \<Rightarrow> fs(name f \<mapsto> write_at (offset f) done c))
      in ((f\<lparr>offset := offset f + length done\<rparr>, fs'),
          (length done, map_option snd fault)))"

text \<open>\<^verbatim>\<open>(*os.File).Close\<close>; \<^verbatim>\<open>cidFile.Close\<close> drops its result.\<close>

definition File_Close :: "os_File \<Rightarrow> os_File" where
  "File_Close f = f\<lparr>closed := True\<rparr>"

text \<open>
  \<^verbatim>\<open>os.Remove\<close>: fails when the operating system refuses (\<open>fault\<close>) or when the path does
  not exist; otherwise the path is gone.
\<close>

definition os_Remove :: "error option \<Rightarrow> string \<Rightarrow> filesystem \<Rightarrow> filesystem \<times> error option" where
  "os_Remove fault p fs =
     (case fault of
        Some e \<Rightarrow> (fs, Some e)
      | None \<Rightarrow>
          (if p \<in> dom fs then (fs(p := None), None)
           else (fs, Some (ErrorString (''remove '' @ p @ '': no such file or directory'')))))"

definition cidFile_Close ::
  "error option \<Rightarrow> cidFile \<Rightarrow> filesystem \<Rightarrow> (cidFile \<times> filesystem) \<times> error option" where
  "cidFile_Close rmfault cid fs =
     (let cid1 = cid\<lparr>file' := File_Close (file' cid)\<rparr> in
      if \<not> written cid1 then
        (case os_Remove rmfault (path cid1) fs of
           (fs', Some err) \<Rightarrow>
             ((cid1, fs'),
              Some (ErrorString (''failed to remove the CID file '' @ [CHR 0x27] @ path cid1
                       @ [CHR 0x27] @ '': '' @ Error err @ '' '' @ [CHR 0x0A])))
         | (fs', None) \<Rightarrow> ((cid1, fs'), None))
      else ((cid1, fs), None))"

definition cidFile_Write ::
  "(nat \<times> error) option \<Rightarrow> cidFile \<Rightarrow> string \<Rightarrow> filesystem \<Rightarrow>
     (cidFile \<times> filesystem) \<times> error option" where
  "cidFile_Write wfault cid ident fs =
     (case File_Write wfault (file' cid) ident fs of
        ((f', fs'), (_, Some err)) \<Rightarrow>
          ((cid\<lparr>file' := f'\<rparr>, fs'),
           Some (ErrorString (''Failed to write the container ID to the file: '' @ Error err)))
      | ((f', fs'), (_, None)) \<Rightarrow>
          ((cid\<lparr>file' := f', written := True\<rparr>, fs'), None))"

section \<open>The backspace filter of the Windows console relay\<close>

text \<open>
  Byte slices live in a store, so that what \<^verbatim>\<open>Write\<close> does to its argument can be
  stated: a slice is the address of its array, \<open>cells\<close> gives the array at an address and
  \<open>next_free\<close> is the first address that \<^verbatim>\<open>make\<close> has not handed out yet.
\<close>

type_synonym byte = "8 word"
type_synonym addr = nat

record store =
  cells :: "addr \<Rightarrow> byte list"
  next_free :: addr

text \<open>\<^verbatim>\<open>make([]byte, n)\<close>: a fresh array of \<open>n\<close> zero bytes.\<close>

definition make_bytes :: "nat \<Rightarrow> store \<Rightarrow> addr \<times> store" where
  "make_bytes n h =
     (next_free h, h\<lparr>cells := (cells h)(next_free h := replicate n 0),
                      next_free := Suc (next_free h)\<rparr>)"

text \<open>
  Indexing checks the bounds: \<open>None\<close> is the run-time panic \<^verbatim>\<open>index out of range\<close>.
\<close>

definition load :: "store \<Rightarrow> addr \<Rightarrow> nat \<Rightarrow> byte option" where
  "load h a i = (if i < length (cells h a) then Some (cells h a ! i) else None)"

definition update :: "store \<Rightarrow> addr \<Rightarrow> nat \<Rightarrow> byte \<Rightarrow> store option" where
  "update h a i v =
     (if i < length (cells h a) then Some (h\<lparr>cells := (cells h)(a := (cells h a)[i := v])\<rparr>)
      else None)"

definition backspace :: byte where "backspace = 0x8"
definition del :: byte where "del = 0x7f"

text \<open>
  The loop \<^verbatim>\<open>for i, c := range b\<close> of \<^verbatim>\<open>delToBsWriter.Write\<close>, from index \<open>i\<close> on;
  \<open>n\<close> is \<^verbatim>\<open>len(b)\<close>, read once when the loop starts.
\<close>

function delToBs_loop :: "addr \<Rightarrow> addr \<Rightarrow> nat \<Rightarrow> nat \<Rightarrow> store \<Rightarrow> store option" where
  "delToBs_loop b bc n i h =
     (if i < n then
        (case load h b i of
           None \<Rightarrow> None
         | Some c \<Rightarrow>
             (case update h bc i (if c = del then backspace else c) of
                None \<Rightarrow> None
              | Some h' \<Rightarrow> delToBs_loop b bc n (Suc i) h'))
      else Some h)"
  by pat_completeness auto
termination
  by (relation "measure (\<lambda>(b, bc, n, i, h). n - i)") auto

declare delToBs_loop.simps [simp del]

text \<open>
  The wrapped \<^verbatim>\<open>io.WriteCloser\<close> is any function from the bytes it is handed and its own
  state to a new state, a count and an error. \<^verbatim>\<open>delToBsWriter.Write\<close> hands it the
  array of \<^verbatim>\<open>bc\<close>.
\<close>

type_synonym 's Writer = "byte list \<Rightarrow> 's \<Rightarrow> 's \<times> int \<times> error option"

definition delToBsWriter_Write ::
  "'s Writer \<Rightarrow> addr \<Rightarrow> store \<Rightarrow> 's \<Rightarrow> (store \<times> 's \<times> int \<times> error option) option" where
  "delToBsWriter_Write w b h s =
     (case make_bytes (length (cells h b)) h of
        (bc, h1) \<Rightarrow>
          (case delToBs_loop b bc (length (cells h1 b)) 0 h1 of
             None \<Rightarrow> None
           | Some h2 \<Rightarrow> Some (h2, w (cells h2 bc) s)))"

text \<open>
  \<^verbatim>\<open>fixStdinBackspaceBehavior\<close> returns either the writer it was given or that writer
  wrapped; \<open>build\<close> is \<^verbatim>\<open>system.GetOSVersion().Build\<close>, a \<^verbatim>\<open>uint16\<close>.
\<close>

datatype 's WriteCloser = Plain "'s Writer" | delToBsWriter "'s Writer"

definition fixStdinBackspaceBehavior :: "16 word \<Rightarrow> 's Writer \<Rightarrow> bool \<Rightarrow> 's WriteCloser" where
  "fixStdinBackspaceBehavior build w tty =
     (if \<not> tty \<or> build \<ge> 14350 then Plain w else delToBsWriter w)"

text \<open>A call of \<^verbatim>\<open>Write\<close> on the returned value goes to the method of what was returned.\<close>

fun WriteCloser_Write ::
  "'s WriteCloser \<Rightarrow> addr \<Rightarrow> store \<Rightarrow> 's \<Rightarrow> (store \<times> 's \<times> int \<times> error option) option" where
  "WriteCloser_Write (Plain w) b h s = Some (h, w (cells h b) s)"
| "WriteCloser_Write (delToBsWriter w) b h s = delToBsWriter_Write w b h s"

section \<open>Running a container: \<^verbatim>\<open>CmdRun\<close>\<close>

subsection \<open>The request\<close>

text \<open>
  What \<^verbatim>\<open>runconfigopts.Parse\<close> hands back when it succeeds, with the flags that
  \<^verbatim>\<open>CmdRun\<close> declares itself. The types of the configuration are declared outside the
  files at hand; only the fields that \<^verbatim>\<open>CmdRun\<close> reads or writes are kept, and
  the networking configuration, passed on to the daemon untouched, is left out.
  \<open>flAttach\<close> is what \<^verbatim>\<open>cmd.Lookup("-attach")\<close> finds: \<open>None\<close> when there is no such
  flag, otherwise the values given with \<^verbatim>\<open>-a\<close>.
\<close>

record Config =
  Image :: string
  AttachStdin :: bool
  AttachStdout :: bool
  AttachStderr :: bool
  Tty :: bool
  StdinOnce :: bool
  ArgsEscaped :: bool

record RestartPolicy =
  Name :: string
  MaximumRetryCount :: int

record HostConfig =
  OomKillDisable :: "bool option"
  Memory :: int
  DNS :: "string list"
  RestartPolicy :: RestartPolicy
  ContainerIDFile :: string
  ConsoleSize :: "int \<times> int"

record Request =
  flAutoRemove :: bool
  flDetach :: bool
  flSigProxy :: bool
  flName :: string
  flDetachKeys :: string
  flAttach :: "string list option"
  config :: Config
  hostConfig :: HostConfig

text \<open>
  Modelled from the spec: the two tests of the restart policy, whose source (the API types
  of the engine) is not part of the files at hand. The spec says that the policy is
  "always", respectively "on-failure".
\<close>

definition IsAlways :: "RestartPolicy \<Rightarrow> bool" where
  "IsAlways rp = (Name rp = ''always'')"

definition IsOnFailure :: "RestartPolicy \<Rightarrow> bool" where
  "IsOnFailure rp = (Name rp = ''on-failure'')"

subsection \<open>The collaborators\<close>

text \<open>
  Everything \<^verbatim>\<open>CmdRun\<close> asks of the daemon, the terminal and the operating system is
  answered by the environment. Each of these is called at most once in a run, so one
  answer per call is enough; a call that returns a value and an error is a sum, with
  \<open>Inl\<close> for the error.
\<close>

record Env =
  GOOS :: string
  isTerminalOut :: bool
  DetachKeys :: string
  CheckTtyInput :: "bool \<Rightarrow> bool \<Rightarrow> error option"
  IsLocalhost :: "string \<Rightarrow> bool"
  getTtySize :: "int \<times> int"
  createContainer :: "error + string"
  ContainerAttach :: "error option"
  holdHijackedConnection :: "error option"
  ContainerStart :: "error option"
  monitorTtySize :: "error option"
  ContainerWait :: "error + int"
  getExitCode :: "error + bool \<times> int"
  removeContainer :: "error option"

subsection \<open>What a run does\<close>

text \<open>
  A run is observed as the list of what the primary task does, in order: the calls to
  collaborators, what it prints, the background tasks it starts (\<open>Go\<close>), the
  cancellation of its context and the channels it receives from (\<open>Recv\<close>, which blocks
  until the task behind the channel has delivered). Deferred calls appear where they run,
  when the function returns. What a background task does is a list of events of its own
  (\<open>task_body\<close> below): it prints, calls, closes a channel (\<open>Close\<close>) or sends a value on
  one (\<open>Send\<close>); \<open>sched\<close> below says how the tasks of a run interleave.
\<close>

datatype stream = cli_in | cli_out | cli_err

datatype chan = waitDisplayID | errCh

record ContainerAttachOptions =
  Stream :: bool
  Stdin :: bool
  Stdout :: bool
  Stderr :: bool
  AttachDetachKeys :: string

datatype task =
    DisplayID string
  | HoldHijacked bool "stream option" "stream option" "stream option"

datatype event =
    Fprintf stream string
  | ReportError string bool
  | Usage
  | Call_CheckTtyInput bool bool
  | Call_getTtySize
  | Call_createContainer Config HostConfig string string
  | Call_forwardAllSignals string
  | Go task
  | Call_ContainerAttach string ContainerAttachOptions
  | Call_ContainerStart string
  | CancelFun
  | Recv chan
  | Call_monitorTtySize string
  | Debugf string
  | Call_ContainerWait string
  | Call_getExitCode string
  | Call_removeContainer string bool bool bool
  | StopCatch
  | RespClose
  | Close chan
  | Send chan "error option"
  | Call_holdHijackedConnection bool "stream option" "stream option" "stream option"

text \<open>\<^verbatim>\<open>CmdRun\<close> either returns (an error or \<^verbatim>\<open>nil\<close>) or ends the process.\<close>

datatype outcome = Return "error option" | Exit int

definition ErrConflictAttachDetach :: error where
  "ErrConflictAttachDetach = ErrorString ''Conflicting options: -a and -d''"

definition ErrConflictRestartPolicyAndAutoRemove :: error where
  "ErrConflictRestartPolicyAndAutoRemove = ErrorString ''Conflicting options: --restart and --rm''"

definition ErrConflictDetachAutoRemove :: error where
  "ErrConflictDetachAutoRemove = ErrorString ''Conflicting options: --rm and -d''"

text \<open>Lines 94 to 108: the two warnings, printed before anything is checked.\<close>

definition CmdRun_warnings :: "Env \<Rightarrow> HostConfig \<Rightarrow> event list" where
  "CmdRun_warnings env hc =
     (if OomKillDisable hc = Some True \<and> Memory hc = 0 then
        [Fprintf cli_err (''WARNING: Disabling the OOM killer on containers without setting a ''
            @ [CHR 0x27] @ ''-m/--memory'' @ [CHR 0x27] @ '' limit may be dangerous.''
            @ [CHR 0x0A])]
      else [])
     @ (case find (IsLocalhost env) (DNS hc) of
          Some dnsIP \<Rightarrow>
            [Fprintf cli_err (''WARNING: Localhost DNS setting (--dns='' @ dnsIP
                @ '') may fail in containers.'' @ [CHR 0x0A])]
        | None \<Rightarrow> [])"

text \<open>Lines 297 to 300: a status other than zero is returned as a \<open>StatusError\<close>.\<close>

definition CmdRun_status :: "int \<Rightarrow> error option" where
  "CmdRun_status status = (if status \<noteq> 0 then Some (StatusError status) else None)"

text \<open>Lines 270 to 296: where the exit status comes from.\<close>

definition CmdRun_attached :: "Env \<Rightarrow> bool \<Rightarrow> bool \<Rightarrow> string \<Rightarrow> event list \<times> error option" where
  "CmdRun_attached env autoRemove tty cid =
     (if autoRemove then
        (case ContainerWait env of
           Inl err \<Rightarrow> ([Call_ContainerWait cid], Some (runStartContainerErr err))
         | Inr status \<Rightarrow>
             (case getExitCode env of
                Inl err \<Rightarrow> ([Call_ContainerWait cid, Call_getExitCode cid], Some err)
              | Inr (running, status') \<Rightarrow>
                  ([Call_ContainerWait cid, Call_getExitCode cid], CmdRun_status status')))
      else if \<not> tty then
        (case ContainerWait env of
           Inl err \<Rightarrow> ([Call_ContainerWait cid], Some err)
         | Inr status \<Rightarrow> ([Call_ContainerWait cid], CmdRun_status status))
      else
        (case getExitCode env of
           Inl err \<Rightarrow> ([Call_getExitCode cid], Some err)
         | Inr (running, status) \<Rightarrow> ([Call_getExitCode cid], CmdRun_status status)))"

text \<open>
  What the task started by \<^verbatim>\<open>promise.Go\<close> delivers on \<open>errCh\<close>: the error of
  \<^verbatim>\<open>holdHijackedConnection\<close>, and \<^verbatim>\<open>errAttach\<close> when there is none.
\<close>

definition errCh_result :: "Env \<Rightarrow> error option" where
  "errCh_result env =
     (case holdHijackedConnection env of
        None \<Rightarrow> ContainerAttach env
      | Some errHijack \<Rightarrow> Some errHijack)"


text \<open>Lines 250 to 300: after the container has been started.\<close>

definition CmdRun_started :: "Env \<Rightarrow> bool \<Rightarrow> Config \<Rightarrow> string \<Rightarrow> event list \<times> error option" where
  "CmdRun_started env autoRemove cfg cid =
     (let attach = AttachStdin cfg \<or> AttachStdout cfg \<or> AttachStderr cfg;
          t1 = (if attach \<and> Tty cfg \<and> isTerminalOut env then
                  Call_monitorTtySize cid #
                  (case monitorTtySize env of
                     Some err \<Rightarrow>
                       [Fprintf cli_err (''Error monitoring TTY size: '' @ Error err @ [CHR 0x0A])]
                   | None \<Rightarrow> [])
                else [])
      in case (if attach then errCh_result env else None) of
           Some err \<Rightarrow> (t1 @ [Recv errCh, Debugf (''Error hijack: '' @ Error err)], Some err)
         | None \<Rightarrow>
             (let t2 = t1 @ (if attach then [Recv errCh] else []) in
              if \<not> AttachStdout cfg \<and> \<not> AttachStderr cfg then
                (t2 @ [Recv waitDisplayID], None)
              else
                (let status = CmdRun_attached env autoRemove (Tty cfg) cid
                 in (t2 @ fst status, snd status))))"

text \<open>
  Lines 157 to 248: from the created container to the start call. The three deferred
  calls run at the return, the last one registered first, and only those registered by
  then.
\<close>

definition deferred_remove :: "Env \<Rightarrow> string \<Rightarrow> event list" where
  "deferred_remove env cid =
     Call_removeContainer cid True False True #
     (case removeContainer env of
        Some err \<Rightarrow> [Fprintf cli_err (Error err @ [CHR 0x0A])]
      | None \<Rightarrow> [])"

text \<open>
  Lines 157 to 172: signal forwarding, and the start of the background task that prints
  the identifier and then closes \<open>waitDisplayID\<close> (its body is \<open>task_body\<close> of
  \<open>DisplayID cid\<close>).
\<close>

definition CmdRun_announce :: "bool \<Rightarrow> Config \<Rightarrow> string \<Rightarrow> event list" where
  "CmdRun_announce sigProxy cfg cid =
     (if sigProxy then [Call_forwardAllSignals cid] else [])
     @ (if \<not> AttachStdout cfg \<and> \<not> AttachStderr cfg then [Go (DisplayID cid)] else [])"

text \<open>Lines 178 to 206: the streams wired to the session and the options of the attach call.\<close>

definition CmdRun_hijack :: "Config \<Rightarrow> task" where
  "CmdRun_hijack cfg =
     (let in' = (if AttachStdin cfg then Some cli_in else None);
          out = (if AttachStdout cfg then Some cli_out else None);
          stderr = (if AttachStderr cfg then
                      (if Tty cfg then Some cli_out else Some cli_err)
                    else None)
      in HoldHijacked (Tty cfg) in' out stderr)"

definition CmdRun_options :: "Env \<Rightarrow> Request \<Rightarrow> Config \<Rightarrow> ContainerAttachOptions" where
  "CmdRun_options env r cfg =
     (let keys = (if flDetachKeys r \<noteq> [] then flDetachKeys r else DetachKeys env)
      in \<lparr>Stream = True, Stdin = AttachStdin cfg, Stdout = AttachStdout cfg,
          Stderr = AttachStderr cfg, AttachDetachKeys = keys\<rparr>)"

text \<open>
  The deferred calls that have been registered once line 234 is passed, in the order in
  which they run: the removal, \<^verbatim>\<open>resp.Close\<close>, \<^verbatim>\<open>signal.StopCatch\<close>.
\<close>

definition CmdRun_deferred :: "Env \<Rightarrow> Request \<Rightarrow> Config \<Rightarrow> bool \<Rightarrow> string \<Rightarrow> event list" where
  "CmdRun_deferred env r cfg sigProxy cid =
     (if flAutoRemove r then deferred_remove env cid else [])
     @ (if AttachStdin cfg \<or> AttachStdout cfg \<or> AttachStderr cfg then [RespClose] else [])
     @ (if sigProxy then [StopCatch] else [])"

definition CmdRun_created ::
  "Env \<Rightarrow> Request \<Rightarrow> Config \<Rightarrow> HostConfig \<Rightarrow> bool \<Rightarrow> string \<Rightarrow> event list \<times> error option" where
  "CmdRun_created env r cfg hc sigProxy cid =
     (let t2 = CmdRun_announce sigProxy cfg cid;
          d1 = (if sigProxy then [StopCatch] else [])
      in if flAutoRemove r \<and> (IsAlways (RestartPolicy hc) \<or> IsOnFailure (RestartPolicy hc)) then
           (t2 @ d1, Some ErrConflictRestartPolicyAndAutoRemove)
         else
           (let attach = AttachStdin cfg \<or> AttachStdout cfg \<or> AttachStderr cfg;
                options = CmdRun_options env r cfg;
                errAttach = ContainerAttach env
            in if attach \<and> errAttach \<noteq> None \<and> errAttach \<noteq> Some ErrPersistEOF then
                 (t2 @ [Call_ContainerAttach cid options] @ d1, errAttach)
               else
                 (let t3 = t2 @ (if attach then
                                   [Call_ContainerAttach cid options, Go (CmdRun_hijack cfg)]
                                 else []);
                      d3 = CmdRun_deferred env r cfg sigProxy cid
                  in case ContainerStart env of
                       Some err \<Rightarrow>
                         (t3 @ [Call_ContainerStart cid]
                             @ (if attach then [CancelFun, Recv errCh] else [])
                             @ [ReportError (Error err) False] @ d3,
                          Some (runStartContainerErr err))
                     | None \<Rightarrow>
                         (let rest = CmdRun_started env (flAutoRemove r) cfg cid
                          in (t3 @ [Call_ContainerStart cid] @ fst rest @ d3, snd rest)))))"

text \<open>
  Lines 114 to 135: the checks made before the container is created. The result is the
  error that \<^verbatim>\<open>CmdRun\<close> returns there, or the configuration it goes on with.
\<close>

definition CmdRun_check :: "Env \<Rightarrow> Request \<Rightarrow> error + Config" where
  "CmdRun_check env r =
     (let cfg0 = (config r)\<lparr>ArgsEscaped := False\<rparr> in
      if \<not> flDetach r then
        (case CheckTtyInput env (AttachStdin cfg0) (Tty cfg0) of
           Some err \<Rightarrow> Inl err
         | None \<Rightarrow> Inr cfg0)
      else if (case flAttach r of None \<Rightarrow> False | Some values \<Rightarrow> length values \<noteq> 0) then
        Inl ErrConflictAttachDetach
      else if flAutoRemove r then Inl ErrConflictDetachAutoRemove
      else Inr (cfg0\<lparr>AttachStdin := False, AttachStdout := False,
                     AttachStderr := False, StdinOnce := False\<rparr>))"

text \<open>Lines 137 to 141: signals are not forwarded in TTY mode.\<close>

definition CmdRun_sigProxy :: "Request \<Rightarrow> Config \<Rightarrow> bool" where
  "CmdRun_sigProxy r cfg = (if Tty cfg then False else flSigProxy r)"

text \<open>Lines 146 to 148: on Windows the host configuration gets the size of the terminal.\<close>

definition CmdRun_hostConfig :: "Env \<Rightarrow> Request \<Rightarrow> HostConfig" where
  "CmdRun_hostConfig env r =
     (if GOOS env = ''windows'' then (hostConfig r)\<lparr>ConsoleSize := getTtySize env\<rparr>
      else hostConfig r)"

text \<open>
  \<^verbatim>\<open>CmdRun\<close>, from the result of the parser on: \<open>Inl err\<close> when parsing failed, else the
  request. Lines 86 to 156.
\<close>

definition CmdRun :: "Env \<Rightarrow> error + Request \<Rightarrow> event list \<times> outcome" where
  "CmdRun env parsed =
     (case parsed of
        Inl err \<Rightarrow> ([ReportError (Error err) True], Exit 125)
      | Inr r \<Rightarrow>
          (let t0 = CmdRun_warnings env (hostConfig r) in
           if Image (config r) = [] then (t0 @ [Usage], Return None)
           else
             (let t1 = t0 @ (if \<not> flDetach r then
                               [Call_CheckTtyInput (AttachStdin (config r)) (Tty (config r))]
                             else [])
              in case CmdRun_check env r of
                   Inl err \<Rightarrow> (t1, Return (Some err))
                 | Inr cfg \<Rightarrow>
                     (let sigProxy = CmdRun_sigProxy r cfg;
                          hc = CmdRun_hostConfig env r;
                          t2 = t1 @ (if GOOS env = ''windows'' then [Call_getTtySize] else [])
                            @ [Call_createContainer cfg hc (ContainerIDFile hc) (flName r)]
                      in case createContainer env of
                           Inl err \<Rightarrow>
                             (t2 @ [ReportError (Error err) True],
                              Return (Some (runStartContainerErr err)))
                         | Inr cid \<Rightarrow>
                             (let rest = CmdRun_created env r cfg hc sigProxy cid
                              in (t2 @ fst rest, Return (snd rest)))))))"

text \<open>The calls that ask the daemon for the exit status.\<close>

fun status_call :: "event \<Rightarrow> bool" where
  "status_call (Call_ContainerWait cid) = True"
| "status_call (Call_getExitCode cid) = True"
| "status_call e = False"

subsection \<open>The primary task and the background tasks together\<close>






section \<open>Concrete inputs\<close>

text \<open>The values at which the theorems below are instantiated.\<close>

definition example_cid :: cidFile where
  "example_cid =
     \<lparr>path = ''/tmp/cid'',
      file' = \<lparr>name = ''/tmp/cid'', offset = 0, closed = False\<rparr>,
      written = False\<rparr>"

definition example_fs :: filesystem where
  "example_fs = [''/tmp/cid'' \<mapsto> []]"

definition example_store :: store where
  "example_store =
     \<lparr>cells = (\<lambda>a. if a = 0 then [0x61, 0x7f, 0x08, 0x7f] else []), next_free = 1\<rparr>"

definition example_writer :: "(byte list) list Writer" where
  "example_writer bs s = (s @ [bs], int (length bs), None)"

definition example_config :: Config where
  "example_config =
     \<lparr>Image = ''busybox'', AttachStdin = False, AttachStdout = True, AttachStderr = True,
      Tty = False, StdinOnce = False, ArgsEscaped = False\<rparr>"

definition example_hostConfig :: HostConfig where
  "example_hostConfig =
     \<lparr>OomKillDisable = None, Memory = 0, DNS = [],
      RestartPolicy = \<lparr>Name = ''no'', MaximumRetryCount = 0\<rparr>,
      ContainerIDFile = [], ConsoleSize = (0, 0)\<rparr>"

definition example_request :: Request where
  "example_request =
     \<lparr>flAutoRemove = False, flDetach = False, flSigProxy = True, flName = [],
      flDetachKeys = [], flAttach = Some [], config = example_config,
      hostConfig = example_hostConfig\<rparr>"

definition example_env :: Env where
  "example_env =
     \<lparr>GOOS = ''linux'', isTerminalOut = True, DetachKeys = [],
      CheckTtyInput = (\<lambda>attachStdin ttyMode. None), IsLocalhost = (\<lambda>ip. False),
      getTtySize = (24, 80), createContainer = Inr ''4fa6e0f0c678'',
      ContainerAttach = None, holdHijackedConnection = None, ContainerStart = None,
      monitorTtySize = None, ContainerWait = Inr 0, getExitCode = Inr (False, 0),
      removeContainer = None\<rparr>"

section \<open>Facts about the string functions\<close>

lemma HasPrefix_iff_prefix: "HasPrefix s p \<longleftrightarrow> prefix p s"
  unfolding HasPrefix_def prefix_def
  by (metis append_eq_conv_conj append_take_drop_id length_append le_add1)

lemma Contains_iff_sublist: "Contains s substr \<longleftrightarrow> sublist substr s"
  by (induction s) (auto simp: HasPrefix_iff_prefix sublist_Cons_right)

lemma TrimPrefix_append: "TrimPrefix (p @ m) p = m"
  by (simp add: TrimPrefix_def HasPrefix_def)

lemma TrimPrefix_no_prefix: "\<not> prefix p s \<Longrightarrow> TrimPrefix s p = s"
  by (simp add: TrimPrefix_def HasPrefix_iff_prefix)

lemma TrimPrefix_cases:
  "s = p @ m \<or> (\<not> prefix p s \<and> m = s) \<Longrightarrow> TrimPrefix s p = m"
  by (auto simp: TrimPrefix_append TrimPrefix_no_prefix)


section \<open>Classification of create and start failures\<close>

text \<open>
  Claim C2, as amended. Let \<open>m\<close> be the text of the error once the envelope
  \<^verbatim>\<open>Error response from daemon: \<close> has been stripped from its front (or the whole text
  when it does not start with the envelope). The exit code is 127 when \<open>m\<close> starts with
  \<^verbatim>\<open>Container command\<close> and contains \<^verbatim>\<open>not found or does not exist\<close>; otherwise 126
  when \<open>m\<close> starts with \<^verbatim>\<open>Container command\<close> and contains
  \<^verbatim>\<open>could not be invoked\<close>; and 125 for every other text.
\<close>

theorem runStartContainerErr_classes:
  assumes "Error err = ''Error response from daemon: '' @ m
           \<or> (\<not> prefix ''Error response from daemon: '' (Error err) \<and> m = Error err)"
  shows "(prefix ''Container command'' m \<and> sublist ''not found or does not exist'' m
            \<longrightarrow> runStartContainerErr err = StatusError 127)
       \<and> (prefix ''Container command'' m \<and> \<not> sublist ''not found or does not exist'' m
             \<and> sublist ''could not be invoked'' m
            \<longrightarrow> runStartContainerErr err = StatusError 126)
       \<and> (\<not> prefix ''Container command'' m
             \<or> (\<not> sublist ''not found or does not exist'' m \<and> \<not> sublist ''could not be invoked'' m)
            \<longrightarrow> runStartContainerErr err = StatusError 125)"
proof -
  have t: "TrimPrefix (Error err) ''Error response from daemon: '' = m"
    using assms by (rule TrimPrefix_cases)
  show ?thesis
    unfolding runStartContainerErr_def t Let_def
    by (simp add: HasPrefix_iff_prefix Contains_iff_sublist errCmdNotFound_def
        errCmdCouldNotBeInvoked_def)
qed


theorem runStartContainerErr_classes_witness:
  "runStartContainerErr
     (ErrorString ''Error response from daemon: Container command not found or does not exist.'')
     = StatusError 127
   \<and> runStartContainerErr (ErrorString ''Container command could not be invoked.'') = StatusError 126
   \<and> runStartContainerErr (ErrorString ''Error response from daemon: No such image'') = StatusError 125"
proof -
  have a: "runStartContainerErr
     (ErrorString ''Error response from daemon: Container command not found or does not exist.'')
     = StatusError 127"
    using runStartContainerErr_classes
      [of "ErrorString ''Error response from daemon: Container command not found or does not exist.''"
          "''Container command not found or does not exist.''"]
    by (simp add: sublist_Cons_right)
  have b: "runStartContainerErr (ErrorString ''Container command could not be invoked.'') = StatusError 126"
    using runStartContainerErr_classes
      [of "ErrorString ''Container command could not be invoked.''"
          "''Container command could not be invoked.''"]
    by (simp add: sublist_Cons_right)
  have c: "runStartContainerErr (ErrorString ''Error response from daemon: No such image'') = StatusError 125"
    using runStartContainerErr_classes
      [of "ErrorString ''Error response from daemon: No such image''" "''No such image''"]
    by simp
  from a b c show ?thesis by simp
qed


text \<open>
  Claim C2 as it is written fails: a text that contains \<^verbatim>\<open>Container command\<close> and
  \<^verbatim>\<open>not found\<close> without the whole phrase \<^verbatim>\<open>not found or does not exist\<close> is not given
  127, and a text that contains \<^verbatim>\<open>Container command\<close> elsewhere than at its start,
  with \<^verbatim>\<open>could not be invoked\<close>, is not given 126. Both get 125.
\<close>

theorem runStartContainerErr_contains_counterexample:
  "sublist ''Container command'' ''Container command not found in $PATH''
   \<and> sublist ''not found'' ''Container command not found in $PATH''
   \<and> runStartContainerErr (ErrorString ''Error response from daemon: Container command not found in $PATH'')
       \<noteq> StatusError 127
   \<and> sublist ''Container command'' ''Cannot start: Container command could not be invoked.''
   \<and> sublist ''could not be invoked'' ''Cannot start: Container command could not be invoked.''
   \<and> runStartContainerErr (ErrorString ''Cannot start: Container command could not be invoked.'')
       \<noteq> StatusError 126"
  by code_simp

section \<open>The container identifier file: \<^verbatim>\<open>Write\<close> and \<^verbatim>\<open>Close\<close>\<close>

lemma write_at_fresh: "write_at 0 b [] = b"
  by (simp add: write_at_def)

lemma cidFile_Close_written:
  "written cid \<Longrightarrow>
   cidFile_Close rmfault cid fs = ((cid\<lparr>file' := File_Close (file' cid)\<rparr>, fs), None)"
  by (simp add: cidFile_Close_def)

lemma cidFile_Close_unwritten_ok:
  "\<not> written cid \<Longrightarrow> path cid \<in> dom fs \<Longrightarrow>
   cidFile_Close None cid fs
     = ((cid\<lparr>file' := File_Close (file' cid)\<rparr>, fs(path cid := None)), None)"
  by (simp add: cidFile_Close_def os_Remove_def)

lemma cidFile_Close_unwritten_fault:
  "\<not> written cid \<Longrightarrow>
   cidFile_Close (Some e) cid fs
     = ((cid\<lparr>file' := File_Close (file' cid)\<rparr>, fs),
        Some (ErrorString (''failed to remove the CID file '' @ [CHR 0x27] @ path cid
                       @ [CHR 0x27] @ '': '' @ Error e @ '' '' @ [CHR 0x0A])))"
  by (simp add: cidFile_Close_def os_Remove_def)

lemma cidFile_Write_ok:
  "cidFile_Write None cid ident fs
     = ((cid\<lparr>file' := (file' cid)\<lparr>offset := offset (file' cid) + length ident\<rparr>, written := True\<rparr>,
         (case fs (name (file' cid)) of None \<Rightarrow> fs
          | Some c \<Rightarrow> fs(name (file' cid) \<mapsto> write_at (offset (file' cid)) ident c))), None)"
  by (simp add: cidFile_Write_def File_Write_def)

lemma cidFile_Write_fault:
  "cidFile_Write (Some (n, e)) cid ident fs
     = ((cid\<lparr>file' := (file' cid)\<lparr>offset := offset (file' cid) + length (take n ident)\<rparr>\<rparr>,
         (case fs (name (file' cid)) of None \<Rightarrow> fs
          | Some c \<Rightarrow> fs(name (file' cid) \<mapsto> write_at (offset (file' cid)) (take n ident) c))),
        Some (ErrorString (''Failed to write the container ID to the file: '' @ Error e)))"
  by (simp add: cidFile_Write_def File_Write_def)


text \<open>
  Claim C3. For a CID file whose path exists: \<^verbatim>\<open>Close\<close> (with a removal that the
  operating system accepts) deletes the path exactly when the file has not been written.
  After a \<^verbatim>\<open>Write\<close> that succeeds on the fresh, empty file, \<^verbatim>\<open>Close\<close> returns
  \<^verbatim>\<open>nil\<close>, changes nothing in the file system and the path holds exactly the written
  bytes. Without a \<^verbatim>\<open>Write\<close> before it, \<^verbatim>\<open>Close\<close> deletes the path; and when that
  removal fails with \<open>e\<close>, \<^verbatim>\<open>Close\<close> returns its own error
  \<^verbatim>\<open>failed to remove the CID file\<close>, which carries the path and the text of \<open>e\<close>.
\<close>

theorem cidFile_Close_removes_iff_unwritten:
  assumes exists: "path cid \<in> dom fs"
  shows "(snd (fst (cidFile_Close None cid fs)) (path cid) = None \<longleftrightarrow> \<not> written cid)
       \<and> (written cid \<longrightarrow>
            cidFile_Close rmfault cid fs = ((cid\<lparr>file' := File_Close (file' cid)\<rparr>, fs), None))
       \<and> (\<not> written cid \<and> name (file' cid) = path cid \<and> offset (file' cid) = 0
            \<and> fs (path cid) = Some [] \<longrightarrow>
            (case cidFile_Write None cid ident fs of
               ((cid', fs'), res) \<Rightarrow>
                 res = None \<and> written cid' \<and>
                 (case cidFile_Close rmfault cid' fs' of
                    ((cid'', fs''), res') \<Rightarrow> res' = None \<and> fs'' = fs' \<and> fs'' (path cid) = Some ident)))
       \<and> (\<not> written cid \<longrightarrow>
            snd (fst (cidFile_Close None cid fs)) = fs(path cid := None)
            \<and> snd (cidFile_Close None cid fs) = None)
       \<and> (\<not> written cid \<longrightarrow>
            snd (fst (cidFile_Close (Some e) cid fs)) = fs
            \<and> snd (cidFile_Close (Some e) cid fs)
                = Some (ErrorString (''failed to remove the CID file '' @ [CHR 0x27] @ path cid
                       @ [CHR 0x27] @ '': '' @ Error e @ '' '' @ [CHR 0x0A])))"
proof -
  have 1: "snd (fst (cidFile_Close None cid fs)) (path cid) = None \<longleftrightarrow> \<not> written cid"
  proof (cases "written cid")
    case True
    then show ?thesis using exists by (auto simp: cidFile_Close_written)
  next
    case False
    then show ?thesis using exists by (simp add: cidFile_Close_unwritten_ok)
  qed
  have 3: "case cidFile_Write None cid ident fs of
               ((cid', fs'), res) \<Rightarrow>
                 res = None \<and> written cid' \<and>
                 (case cidFile_Close rmfault cid' fs' of
                    ((cid'', fs''), res') \<Rightarrow> res' = None \<and> fs'' = fs' \<and> fs'' (path cid) = Some ident)"
    if "\<not> written cid \<and> name (file' cid) = path cid \<and> offset (file' cid) = 0 \<and> fs (path cid) = Some []"
    using that by (simp add: cidFile_Write_ok cidFile_Close_written write_at_fresh)
  show ?thesis
    using 1 3 exists
    by (simp add: cidFile_Close_written cidFile_Close_unwritten_ok cidFile_Close_unwritten_fault)
qed


theorem cidFile_Close_removes_iff_unwritten_witness:
  "snd (fst (cidFile_Close None example_cid example_fs)) ''/tmp/cid'' = None
   \<and> snd (cidFile_Close None example_cid example_fs) = None
   \<and> snd (fst (cidFile_Close None (fst (fst (cidFile_Write None example_cid ''4fa6e0f0c678'' example_fs)))
                  (snd (fst (cidFile_Write None example_cid ''4fa6e0f0c678'' example_fs)))))
         ''/tmp/cid'' = Some ''4fa6e0f0c678''
   \<and> snd (cidFile_Close (Some (ErrorString ''permission denied'')) example_cid example_fs)
       = Some (ErrorString (''failed to remove the CID file '' @ [CHR 0x27] @ ''/tmp/cid''
                       @ [CHR 0x27] @ '': permission denied '' @ [CHR 0x0A]))"
proof -
  have ex: "path example_cid \<in> dom example_fs"
    by (simp add: example_cid_def example_fs_def)
  have fresh: "\<not> written example_cid \<and> name (file' example_cid) = path example_cid
      \<and> offset (file' example_cid) = 0 \<and> example_fs (path example_cid) = Some []"
    by (simp add: example_cid_def example_fs_def)
  have p: "path example_cid = ''/tmp/cid''"
    by (simp add: example_cid_def)
  show ?thesis
    using cidFile_Close_removes_iff_unwritten
      [OF ex, where rmfault = None and ident = "''4fa6e0f0c678''"
         and e = "ErrorString ''permission denied''"] fresh
    by (simp add: p split: prod.splits)
qed

text \<open>
  Claim C10. When the write to the file fails with \<open>e\<close>, \<^verbatim>\<open>cidFile.Write\<close> returns
  the error \<^verbatim>\<open>Failed to write the container ID to the file\<close> and leaves the flag
  \<open>written\<close> as it was; so, for a file that had not been written and whose path exists,
  the \<^verbatim>\<open>Close\<close> that follows still deletes the path.
\<close>

theorem cidFile_Write_failure_keeps_flag:
  assumes "wfault = Some (n, e)"
  shows "(case cidFile_Write wfault cid ident fs of
            ((cid', fs'), res) \<Rightarrow>
              res = Some (ErrorString (''Failed to write the container ID to the file: '' @ Error e))
              \<and> written cid' = written cid \<and> path cid' = path cid
              \<and> (\<not> written cid \<and> path cid \<in> dom fs \<longrightarrow>
                   path cid \<in> dom fs'
                   \<and> snd (fst (cidFile_Close None cid' fs')) (path cid) = None
                   \<and> snd (cidFile_Close None cid' fs') = None))"
  using assms
  by (auto simp: cidFile_Write_fault cidFile_Close_unwritten_ok split: option.splits)

theorem cidFile_Write_failure_keeps_flag_witness:
  "snd (cidFile_Write (Some (3, ErrorString ''no space left on device'')) example_cid
          ''4fa6e0f0c678'' example_fs)
     = Some (ErrorString ''Failed to write the container ID to the file: no space left on device'')
   \<and> \<not> written (fst (fst (cidFile_Write (Some (3, ErrorString ''no space left on device''))
                            example_cid ''4fa6e0f0c678'' example_fs)))
   \<and> snd (fst (cidFile_Close None
         (fst (fst (cidFile_Write (Some (3, ErrorString ''no space left on device''))
                            example_cid ''4fa6e0f0c678'' example_fs)))
         (snd (fst (cidFile_Write (Some (3, ErrorString ''no space left on device''))
                            example_cid ''4fa6e0f0c678'' example_fs))))) ''/tmp/cid'' = None"
proof -
  have ex: "\<not> written example_cid \<and> path example_cid \<in> dom example_fs"
    by (simp add: example_cid_def example_fs_def)
  have p: "path example_cid = ''/tmp/cid''"
    by (simp add: example_cid_def)
  show ?thesis
    using cidFile_Write_failure_keeps_flag
      [where wfault = "Some (3, ErrorString ''no space left on device'')" and n = 3
         and e = "ErrorString ''no space left on device''" and cid = example_cid
         and ident = "''4fa6e0f0c678''" and fs = example_fs] ex
    by (simp add: p split: prod.splits)
qed

section \<open>The backspace filter\<close>


lemma delToBs_loop_result:
  assumes "b \<noteq> bc" "length (cells h b) = n" "length (cells h bc) = n" "i \<le> n"
  shows "\<exists>h'. delToBs_loop b bc n i h = Some h'
           \<and> cells h' bc = take i (cells h bc) @ map (\<lambda>c. if c = 0x7f then 0x08 else c) (drop i (cells h b))
           \<and> (\<forall>a. a \<noteq> bc \<longrightarrow> cells h' a = cells h a)
           \<and> next_free h' = next_free h"
  using assms
proof (induction b bc n i h rule: delToBs_loop.induct)
  case (1 b bc n i h)
  show ?case
  proof (cases "i < n")
    case False
    with 1 show ?thesis by (subst delToBs_loop.simps) simp
  next
    case True
    let ?c = "cells h b ! i"
    let ?v = "if ?c = del then backspace else ?c"
    let ?h1 = "h\<lparr>cells := (cells h)(bc := (cells h bc)[i := ?v])\<rparr>"
    have ld: "load h b i = Some ?c" using True 1 by (simp add: load_def)
    have up: "update h bc i ?v = Some ?h1" using True 1 by (simp add: update_def)
    have "\<exists>h'. delToBs_loop b bc n (Suc i) ?h1 = Some h'
           \<and> cells h' bc = take (Suc i) (cells ?h1 bc) @ map (\<lambda>c. if c = 0x7f then 0x08 else c) (drop (Suc i) (cells ?h1 b))
           \<and> (\<forall>a. a \<noteq> bc \<longrightarrow> cells h' a = cells ?h1 a)
           \<and> next_free h' = next_free ?h1"
      using "1.IH"[OF True ld up] True 1(2-4) by simp
    then obtain h' where h': "delToBs_loop b bc n (Suc i) ?h1 = Some h'"
      "cells h' bc = take (Suc i) (cells ?h1 bc) @ map (\<lambda>c. if c = 0x7f then 0x08 else c) (drop (Suc i) (cells ?h1 b))"
      "\<forall>a. a \<noteq> bc \<longrightarrow> cells h' a = cells ?h1 a" "next_free h' = next_free ?h1"
      by blast
    have run: "delToBs_loop b bc n i h = Some h'"
      using True ld up h'(1) by (subst delToBs_loop.simps) simp
    have "take (Suc i) (cells ?h1 bc) = take i (cells h bc) @ [?v]"
      using True 1(3,4) by (simp add: take_Suc_conv_app_nth)
    moreover have "drop i (cells h b) = ?c # drop (Suc i) (cells h b)"
      using True 1(3) by (simp add: Cons_nth_drop_Suc)
    ultimately have "cells h' bc = take i (cells h bc) @ map (\<lambda>c. if c = 0x7f then 0x08 else c) (drop i (cells h b))"
      using h'(2) 1(2) by (simp add: del_def backspace_def)
    with run h'(3,4) show ?thesis using 1(2) by simp
  qed
qed

lemma delToBsWriter_Write_result:
  assumes "b < next_free h"
  shows "\<exists>h'. delToBsWriter_Write w b h s
             = Some (h', w (map (\<lambda>c. if c = 0x7f then 0x08 else c) (cells h b)) s)
           \<and> cells h' (next_free h) = map (\<lambda>c. if c = 0x7f then 0x08 else c) (cells h b)
           \<and> (\<forall>a. a \<noteq> next_free h \<longrightarrow> cells h' a = cells h a)
           \<and> next_free h' = Suc (next_free h)"
proof -
  let ?n = "length (cells h b)"
  let ?h1 = "h\<lparr>cells := (cells h)(next_free h := replicate ?n 0), next_free := Suc (next_free h)\<rparr>"
  have ne: "b \<noteq> next_free h" using assms by simp
  have mk: "make_bytes ?n h = (next_free h, ?h1)" by (simp add: make_bytes_def)
  have "\<exists>h'. delToBs_loop b (next_free h) ?n 0 ?h1 = Some h'
           \<and> cells h' (next_free h) = take 0 (cells ?h1 (next_free h)) @ map (\<lambda>c. if c = 0x7f then 0x08 else c) (drop 0 (cells ?h1 b))
           \<and> (\<forall>a. a \<noteq> next_free h \<longrightarrow> cells h' a = cells ?h1 a)
           \<and> next_free h' = next_free ?h1"
    by (rule delToBs_loop_result) (use ne in simp_all)
  then obtain h' where h': "delToBs_loop b (next_free h) ?n 0 ?h1 = Some h'"
     "cells h' (next_free h) = map (\<lambda>c. if c = 0x7f then 0x08 else c) (cells h b)"
     "\<forall>a. a \<noteq> next_free h \<longrightarrow> cells h' a = cells h a" "next_free h' = Suc (next_free h)"
    using ne by auto
  have "length (cells ?h1 b) = ?n" using ne by simp
  then have "delToBsWriter_Write w b h s = Some (h', w (cells h' (next_free h)) s)"
    unfolding delToBsWriter_Write_def mk using h'(1) by simp
  with h' show ?thesis by auto
qed


text \<open>
  Claim C4. \<^verbatim>\<open>fixStdinBackspaceBehavior\<close> returns the filtering writer exactly when the
  session is a pseudo-terminal and the build is below 14350, and the writer it was given
  otherwise. A \<^verbatim>\<open>Write\<close> of the slice \<open>b\<close> through the filtering writer hands the wrapped
  writer the bytes of \<open>b\<close> with every \<open>0x7F\<close> replaced by \<open>0x08\<close> and every other byte
  as it is; through the unfiltered writer it hands over the bytes of \<open>b\<close> themselves and
  leaves the store alone. (\<open>b\<close> is a slice that has been allocated.)
\<close>

theorem fixStdinBackspaceBehavior_filter:
  assumes "b < next_free h"
  shows "(fixStdinBackspaceBehavior build w tty = delToBsWriter w \<longleftrightarrow> tty \<and> build < 14350)
       \<and> (fixStdinBackspaceBehavior build w tty = Plain w \<longleftrightarrow> \<not> (tty \<and> build < 14350))
       \<and> (tty \<and> build < 14350 \<longrightarrow>
            (\<exists>h'. WriteCloser_Write (fixStdinBackspaceBehavior build w tty) b h s
                 = Some (h', w (map (\<lambda>c. if c = 0x7f then 0x08 else c) (cells h b)) s)))
       \<and> (\<not> (tty \<and> build < 14350) \<longrightarrow>
            WriteCloser_Write (fixStdinBackspaceBehavior build w tty) b h s
              = Some (h, w (cells h b) s))"
proof -
  have 1: "fixStdinBackspaceBehavior build w tty = delToBsWriter w \<longleftrightarrow> tty \<and> build < 14350"
    by (auto simp: fixStdinBackspaceBehavior_def not_le)
  have 2: "fixStdinBackspaceBehavior build w tty = Plain w \<longleftrightarrow> \<not> (tty \<and> build < 14350)"
    by (auto simp: fixStdinBackspaceBehavior_def not_le)
  have 3: "\<exists>h'. WriteCloser_Write (fixStdinBackspaceBehavior build w tty) b h s
                 = Some (h', w (map (\<lambda>c. if c = 0x7f then 0x08 else c) (cells h b)) s)"
    if "tty \<and> build < 14350"
  proof -
    from that 1 have "fixStdinBackspaceBehavior build w tty = delToBsWriter w" by simp
    then show ?thesis using delToBsWriter_Write_result[OF assms, of w s] by auto
  qed
  have 4: "WriteCloser_Write (fixStdinBackspaceBehavior build w tty) b h s = Some (h, w (cells h b) s)"
    if "\<not> (tty \<and> build < 14350)"
  proof -
    from that 2 have "fixStdinBackspaceBehavior build w tty = Plain w" by simp
    then show ?thesis by simp
  qed
  from 1 2 3 4 show ?thesis by blast
qed


theorem fixStdinBackspaceBehavior_filter_witness:
  "(\<exists>h'. WriteCloser_Write (fixStdinBackspaceBehavior 10240 example_writer True) 0 example_store []
          = Some (h', [[0x61, 0x08, 0x08, 0x08]], 4, None))
   \<and> WriteCloser_Write (fixStdinBackspaceBehavior 14393 example_writer True) 0 example_store []
          = Some (example_store, [[0x61, 0x7f, 0x08, 0x7f]], 4, None)
   \<and> WriteCloser_Write (fixStdinBackspaceBehavior 10240 example_writer False) 0 example_store []
          = Some (example_store, [[0x61, 0x7f, 0x08, 0x7f]], 4, None)"
proof -
  have al: "0 < next_free example_store"
    by (simp add: example_store_def)
  have c: "cells example_store 0 = [0x61, 0x7f, 0x08, 0x7f]"
    by (simp add: example_store_def)
  have a: "\<exists>h'. WriteCloser_Write (fixStdinBackspaceBehavior 10240 example_writer True) 0 example_store []
          = Some (h', [[0x61, 0x08, 0x08, 0x08]], 4, None)"
    using fixStdinBackspaceBehavior_filter
      [OF al, where build = 10240 and w = example_writer and tty = True and s = "[]"]
    by (auto simp: c example_writer_def)
  have b: "WriteCloser_Write (fixStdinBackspaceBehavior 14393 example_writer True) 0 example_store []
          = Some (example_store, [[0x61, 0x7f, 0x08, 0x7f]], 4, None)"
    using fixStdinBackspaceBehavior_filter
      [OF al, where build = 14393 and w = example_writer and tty = True and s = "[]"]
    by (simp add: c example_writer_def)
  have d: "WriteCloser_Write (fixStdinBackspaceBehavior 10240 example_writer False) 0 example_store []
          = Some (example_store, [[0x61, 0x7f, 0x08, 0x7f]], 4, None)"
    using fixStdinBackspaceBehavior_filter
      [OF al, where build = 10240 and w = example_writer and tty = False and s = "[]"]
    by (simp add: c example_writer_def)
  from a b d show ?thesis by simp
qed

text \<open>
  Claim C9. \<^verbatim>\<open>delToBsWriter.Write\<close> on an allocated slice \<open>b\<close> does not fail, builds its
  output in a slice \<open>bc\<close> that did not exist before the call (so it is not \<open>b\<close>), hands
  the wrapped writer that slice, whose length is the length of \<open>b\<close>, and leaves \<open>b\<close> and
  every other slice that existed before the call unchanged. What it returns is what the
  wrapped writer returns for that slice.
\<close>

theorem delToBsWriter_Write_frame:
  assumes "b < next_free h"
  shows "\<exists>h' bc. delToBsWriter_Write w b h s = Some (h', w (cells h' bc) s)
           \<and> bc = next_free h \<and> bc \<noteq> b
           \<and> length (cells h' bc) = length (cells h b)
           \<and> cells h' b = cells h b
           \<and> (\<forall>a. a < next_free h \<longrightarrow> cells h' a = cells h a)"
proof -
  obtain h' where h': "delToBsWriter_Write w b h s
             = Some (h', w (map (\<lambda>c. if c = 0x7f then 0x08 else c) (cells h b)) s)"
     "cells h' (next_free h) = map (\<lambda>c. if c = 0x7f then 0x08 else c) (cells h b)"
     "\<forall>a. a \<noteq> next_free h \<longrightarrow> cells h' a = cells h a"
    using delToBsWriter_Write_result[OF assms, of w s] by blast
  have "delToBsWriter_Write w b h s = Some (h', w (cells h' (next_free h)) s)"
    using h'(1,2) by simp
  moreover have "length (cells h' (next_free h)) = length (cells h b)" using h'(2) by simp
  moreover have "cells h' b = cells h b" using h'(3) assms by simp
  moreover have "\<forall>a. a < next_free h \<longrightarrow> cells h' a = cells h a" using h'(3) by simp
  ultimately show ?thesis using assms by auto
qed


theorem delToBsWriter_Write_frame_witness:
  "\<exists>h' bc. delToBsWriter_Write example_writer 0 example_store []
              = Some (h', example_writer (cells h' bc) [])
         \<and> bc = 1 \<and> length (cells h' bc) = 4 \<and> cells h' 0 = [0x61, 0x7f, 0x08, 0x7f]"
proof -
  have al: "0 < next_free example_store"
    by (simp add: example_store_def)
  show ?thesis
    using delToBsWriter_Write_frame [OF al, where w = example_writer and s = "[]"]
    by (auto simp: example_store_def)
qed

section \<open>Running a container\<close>

subsection \<open>The events of each part of a run\<close>

lemma warnings_events:
  "e \<in> set (CmdRun_warnings env hc) \<Longrightarrow> \<exists>s. e = Fprintf cli_err s"
  by (auto simp: CmdRun_warnings_def split: option.splits if_splits)

lemma attached_events:
  "e \<in> set (fst (CmdRun_attached env a t c)) \<Longrightarrow> e = Call_ContainerWait c \<or> e = Call_getExitCode c"
  by (auto simp: CmdRun_attached_def split: option.splits sum.splits prod.splits if_splits)

lemma started_events:
  assumes "e \<in> set (fst (CmdRun_started env a cfg c))"
  shows "e = Call_monitorTtySize c \<or> e = Recv errCh \<or> e = Recv waitDisplayID
       \<or> e = Call_ContainerWait c \<or> e = Call_getExitCode c
       \<or> (\<exists>s. e = Fprintf cli_err s) \<or> (\<exists>s. e = Debugf s)"
  using assms attached_events[of e env a "Tty cfg" c]
  by (auto simp: CmdRun_started_def Let_def split: option.splits if_splits)

lemma deferred_events:
  "e \<in> set (CmdRun_deferred env r cfg sp c) \<Longrightarrow>
     e = Call_removeContainer c True False True \<or> (\<exists>s. e = Fprintf cli_err s)
     \<or> e = RespClose \<or> e = StopCatch"
  by (auto simp: CmdRun_deferred_def deferred_remove_def split: option.splits if_splits)

lemma announce_events:
  "e \<in> set (CmdRun_announce sp cfg c) \<Longrightarrow> e = Call_forwardAllSignals c \<or> e = Go (DisplayID c)"
  by (auto simp: CmdRun_announce_def split: if_splits)

lemma no_start:
  "Call_ContainerStart cid \<notin> set (CmdRun_warnings env hc)"
  "Call_ContainerStart cid \<notin> set (CmdRun_announce sp cfg c)"
  "Call_ContainerStart cid \<notin> set (CmdRun_deferred env r cfg sp c)"
  "Call_ContainerStart cid \<notin> set (fst (CmdRun_started env a cfg c))"
  using warnings_events[of "Call_ContainerStart cid" env hc]
    announce_events[of "Call_ContainerStart cid" sp cfg c]
    deferred_events[of "Call_ContainerStart cid" env r cfg sp c]
    started_events[of "Call_ContainerStart cid" env a cfg c]
  by auto

lemma no_attach:
  "Call_ContainerAttach cid opts \<notin> set (CmdRun_warnings env hc)"
  "Call_ContainerAttach cid opts \<notin> set (CmdRun_announce sp cfg c)"
  "Call_ContainerAttach cid opts \<notin> set (CmdRun_deferred env r cfg sp c)"
  "Call_ContainerAttach cid opts \<notin> set (fst (CmdRun_started env a cfg c))"
  using warnings_events[of "Call_ContainerAttach cid opts" env hc]
    announce_events[of "Call_ContainerAttach cid opts" sp cfg c]
    deferred_events[of "Call_ContainerAttach cid opts" env r cfg sp c]
    started_events[of "Call_ContainerAttach cid opts" env a cfg c]
  by auto

lemma no_hijack:
  "Go (HoldHijacked tty i out e) \<notin> set (CmdRun_warnings env hc)"
  "Go (HoldHijacked tty i out e) \<notin> set (CmdRun_announce sp cfg c)"
  "Go (HoldHijacked tty i out e) \<notin> set (CmdRun_deferred env r cfg sp c)"
  "Go (HoldHijacked tty i out e) \<notin> set (fst (CmdRun_started env a cfg c))"
  using warnings_events[of "Go (HoldHijacked tty i out e)" env hc]
    announce_events[of "Go (HoldHijacked tty i out e)" sp cfg c]
    deferred_events[of "Go (HoldHijacked tty i out e)" env r cfg sp c]
    started_events[of "Go (HoldHijacked tty i out e)" env a cfg c]
  by auto

subsection \<open>How far a run has come when a given call is in its trace\<close>

lemma created_start_issued:
  assumes "Call_ContainerStart cid \<in> set (fst (CmdRun_created env r cfg hc sp c))"
  shows "c = cid
      \<and> \<not> (flAutoRemove r \<and> (IsAlways (RestartPolicy hc) \<or> IsOnFailure (RestartPolicy hc)))
      \<and> (AttachStdin cfg \<or> AttachStdout cfg \<or> AttachStderr cfg \<longrightarrow>
            ContainerAttach env = None \<or> ContainerAttach env = Some ErrPersistEOF)"
  using assms
  by (auto simp: CmdRun_created_def Let_def no_start split: option.splits if_splits)

lemma created_attach_issued:
  assumes "Call_ContainerAttach cid opts \<in> set (fst (CmdRun_created env r cfg hc sp c))"
  shows "c = cid \<and> opts = CmdRun_options env r cfg
      \<and> \<not> (flAutoRemove r \<and> (IsAlways (RestartPolicy hc) \<or> IsOnFailure (RestartPolicy hc)))
      \<and> (AttachStdin cfg \<or> AttachStdout cfg \<or> AttachStderr cfg)"
  using assms
  by (auto simp: CmdRun_created_def Let_def no_attach split: option.splits if_splits)

lemma created_hijack_issued:
  assumes "Go (HoldHijacked tty i out e) \<in> set (fst (CmdRun_created env r cfg hc sp c))"
  shows "(AttachStdin cfg \<or> AttachStdout cfg \<or> AttachStderr cfg)"
  using assms
  by (auto simp: CmdRun_created_def Let_def no_hijack split: option.splits if_splits)

lemma CmdRun_events_cases:
  assumes "e \<in> set (fst (CmdRun env (Inr r)))"
  shows "(\<exists>s. e = Fprintf cli_err s) \<or> e = Usage \<or> (\<exists>a b. e = Call_CheckTtyInput a b)
     \<or> e = Call_getTtySize \<or> (\<exists>a b c d. e = Call_createContainer a b c d)
     \<or> (\<exists>s. e = ReportError s True)
     \<or> (\<exists>cfg cid. Image (config r) \<noteq> [] \<and> CmdRun_check env r = Inr cfg
           \<and> createContainer env = Inr cid
           \<and> e \<in> set (fst (CmdRun_created env r cfg (CmdRun_hostConfig env r)
                              (CmdRun_sigProxy r cfg) cid)))"
  using assms warnings_events[of e env "hostConfig r"]
  by (auto simp: CmdRun_def Let_def split: sum.splits if_splits)

lemma hostConfig_RestartPolicy:
  "RestartPolicy (CmdRun_hostConfig env r) = RestartPolicy (hostConfig r)"
  by (simp add: CmdRun_hostConfig_def)

lemma CmdRun_start_issued:
  assumes "Call_ContainerStart cid \<in> set (fst (CmdRun env (Inr r)))"
  shows "\<exists>cfg. Image (config r) \<noteq> [] \<and> CmdRun_check env r = Inr cfg
     \<and> createContainer env = Inr cid
     \<and> \<not> (flAutoRemove r \<and> (IsAlways (RestartPolicy (hostConfig r))
                               \<or> IsOnFailure (RestartPolicy (hostConfig r))))
     \<and> (AttachStdin cfg \<or> AttachStdout cfg \<or> AttachStderr cfg \<longrightarrow>
            ContainerAttach env = None \<or> ContainerAttach env = Some ErrPersistEOF)"
proof -
  from CmdRun_events_cases[OF assms] obtain cfg c where
    c: "Image (config r) \<noteq> []" "CmdRun_check env r = Inr cfg" "createContainer env = Inr c"
       "Call_ContainerStart cid \<in> set (fst (CmdRun_created env r cfg (CmdRun_hostConfig env r)
                              (CmdRun_sigProxy r cfg) c))"
    by auto
  from created_start_issued[OF c(4)] c(1-3) show ?thesis
    by (auto simp: hostConfig_RestartPolicy)
qed

lemma CmdRun_attach_issued:
  assumes "Call_ContainerAttach cid opts \<in> set (fst (CmdRun env (Inr r)))"
  shows "\<exists>cfg. Image (config r) \<noteq> [] \<and> CmdRun_check env r = Inr cfg
     \<and> createContainer env = Inr cid
     \<and> \<not> (flAutoRemove r \<and> (IsAlways (RestartPolicy (hostConfig r))
                               \<or> IsOnFailure (RestartPolicy (hostConfig r))))
     \<and> (AttachStdin cfg \<or> AttachStdout cfg \<or> AttachStderr cfg)"
proof -
  from CmdRun_events_cases[OF assms] obtain cfg c where
    c: "Image (config r) \<noteq> []" "CmdRun_check env r = Inr cfg" "createContainer env = Inr c"
       "Call_ContainerAttach cid opts \<in> set (fst (CmdRun_created env r cfg (CmdRun_hostConfig env r)
                              (CmdRun_sigProxy r cfg) c))"
    by auto
  from created_attach_issued[OF c(4)] c(1-3) show ?thesis
    by (auto simp: hostConfig_RestartPolicy)
qed

lemma CmdRun_hijack_issued:
  assumes "Go (HoldHijacked tty i out e) \<in> set (fst (CmdRun env (Inr r)))"
  shows "\<exists>cfg. CmdRun_check env r = Inr cfg
     \<and> (AttachStdin cfg \<or> AttachStdout cfg \<or> AttachStderr cfg)"
proof -
  from CmdRun_events_cases[OF assms] obtain cfg c where
    c: "CmdRun_check env r = Inr cfg"
       "Go (HoldHijacked tty i out e) \<in> set (fst (CmdRun_created env r cfg (CmdRun_hostConfig env r)
                              (CmdRun_sigProxy r cfg) c))"
    by auto
  from created_hijack_issued[OF c(2)] c(1) show ?thesis by auto
qed

subsection \<open>The run along the path that reaches the start call\<close>

lemma CmdRun_created_run:
  assumes "Image (config r) \<noteq> []" "CmdRun_check env r = Inr cfg" "createContainer env = Inr cid"
  shows "CmdRun env (Inr r) =
     (CmdRun_warnings env (hostConfig r)
        @ (if \<not> flDetach r then [Call_CheckTtyInput (AttachStdin (config r)) (Tty (config r))]
           else [])
        @ (if GOOS env = ''windows'' then [Call_getTtySize] else [])
        @ [Call_createContainer cfg (CmdRun_hostConfig env r)
             (ContainerIDFile (CmdRun_hostConfig env r)) (flName r)]
        @ fst (CmdRun_created env r cfg (CmdRun_hostConfig env r) (CmdRun_sigProxy r cfg) cid),
      Return (snd (CmdRun_created env r cfg (CmdRun_hostConfig env r) (CmdRun_sigProxy r cfg) cid)))"
  using assms by (simp add: CmdRun_def Let_def)

lemma CmdRun_created_to_start:
  assumes "\<not> (flAutoRemove r \<and> (IsAlways (RestartPolicy hc) \<or> IsOnFailure (RestartPolicy hc)))"
      and "AttachStdin cfg \<or> AttachStdout cfg \<or> AttachStderr cfg \<longrightarrow>
            ContainerAttach env = None \<or> ContainerAttach env = Some ErrPersistEOF"
  shows "CmdRun_created env r cfg hc sp cid =
      (case ContainerStart env of
         Some err \<Rightarrow>
           (CmdRun_announce sp cfg cid
              @ (if AttachStdin cfg \<or> AttachStdout cfg \<or> AttachStderr cfg then
                   [Call_ContainerAttach cid (CmdRun_options env r cfg), Go (CmdRun_hijack cfg)]
                 else [])
              @ [Call_ContainerStart cid]
              @ (if AttachStdin cfg \<or> AttachStdout cfg \<or> AttachStderr cfg then
                   [CancelFun, Recv errCh] else [])
              @ [ReportError (Error err) False] @ CmdRun_deferred env r cfg sp cid,
            Some (runStartContainerErr err))
       | None \<Rightarrow>
           (CmdRun_announce sp cfg cid
              @ (if AttachStdin cfg \<or> AttachStdout cfg \<or> AttachStderr cfg then
                   [Call_ContainerAttach cid (CmdRun_options env r cfg), Go (CmdRun_hijack cfg)]
                 else [])
              @ [Call_ContainerStart cid]
              @ fst (CmdRun_started env (flAutoRemove r) cfg cid)
              @ CmdRun_deferred env r cfg sp cid,
            snd (CmdRun_started env (flAutoRemove r) cfg cid)))"
  using assms
  by (auto simp: CmdRun_created_def Let_def split: option.splits)

lemma check_not_detached:
  "CmdRun_check env r = Inr cfg \<Longrightarrow> \<not> flDetach r \<Longrightarrow> cfg = (config r)\<lparr>ArgsEscaped := False\<rparr>"
  by (auto simp: CmdRun_check_def Let_def split: option.splits if_splits)

lemma check_detached:
  "CmdRun_check env r = Inr cfg \<Longrightarrow> flDetach r \<Longrightarrow>
     \<not> AttachStdin cfg \<and> \<not> AttachStdout cfg \<and> \<not> AttachStderr cfg"
  by (auto simp: CmdRun_check_def Let_def split: option.splits if_splits)

lemma no_cancel:
  "CancelFun \<notin> set (CmdRun_warnings env hc)"
  "CancelFun \<notin> set (CmdRun_announce sp cfg c)"
  using warnings_events[of CancelFun env hc] announce_events[of CancelFun sp cfg c]
  by auto

lemma no_recv:
  "Recv ch \<notin> set (CmdRun_warnings env hc)"
  "Recv ch \<notin> set (CmdRun_announce sp cfg c)"
  using warnings_events[of "Recv ch" env hc] announce_events[of "Recv ch" sp cfg c]
  by auto


lemma no_status_call:
  "filter status_call (CmdRun_warnings env hc) = []"
  "filter status_call (CmdRun_announce sp cfg c) = []"
  "filter status_call (CmdRun_deferred env r cfg sp c) = []"
  using warnings_events[of _ env hc] announce_events[of _ sp cfg c]
    deferred_events[of _ env r cfg sp c]
  by (fastforce simp: filter_empty_conv)+

lemma attached_all_status_calls:
  "filter status_call (fst (CmdRun_attached env a t c)) = fst (CmdRun_attached env a t c)"
  using attached_events[of _ env a t c] by (fastforce simp: filter_id_conv)

lemma CmdRun_started_attached:
  assumes "ContainerAttach env = None" "holdHijackedConnection env = None"
      and "AttachStdout cfg \<or> AttachStderr cfg"
  shows "filter status_call (fst (CmdRun_started env a cfg c)) = fst (CmdRun_attached env a (Tty cfg) c)
       \<and> snd (CmdRun_started env a cfg c) = snd (CmdRun_attached env a (Tty cfg) c)"
  using assms
  by (auto simp: CmdRun_started_def Let_def errCh_result_def attached_all_status_calls
      split: option.splits)






lemmas CmdRun_eval = CmdRun_def CmdRun_check_def CmdRun_created_def CmdRun_started_def
  CmdRun_attached_def CmdRun_warnings_def CmdRun_announce_def CmdRun_hijack_def
  CmdRun_options_def CmdRun_deferred_def deferred_remove_def CmdRun_sigProxy_def
  CmdRun_hostConfig_def CmdRun_status_def errCh_result_def IsAlways_def IsOnFailure_def
  Let_def

lemmas example_defs = example_env_def example_request_def example_config_def
  example_hostConfig_def

lemma CmdRun_conflict_attach_detach:
  assumes "Image (config r) \<noteq> []" "flDetach r" "flAttach r = Some (v # vs)"
  shows "CmdRun env (Inr r)
           = (CmdRun_warnings env (hostConfig r), Return (Some ErrConflictAttachDetach))"
  using assms by (simp add: CmdRun_def CmdRun_check_def Let_def)

lemma CmdRun_conflict_detach_autoremove:
  assumes "Image (config r) \<noteq> []" "flDetach r" "flAttach r = None \<or> flAttach r = Some []"
      and "flAutoRemove r"
  shows "CmdRun env (Inr r)
           = (CmdRun_warnings env (hostConfig r), Return (Some ErrConflictDetachAutoRemove))"
  using assms by (auto simp: CmdRun_def CmdRun_check_def Let_def)

lemma CmdRun_restart_conflict_created:
  assumes "Image (config r) \<noteq> []" "CmdRun_check env r = Inr cfg" "createContainer env = Inr cid"
      and "flAutoRemove r"
      and "IsAlways (RestartPolicy (hostConfig r)) \<or> IsOnFailure (RestartPolicy (hostConfig r))"
  shows "snd (CmdRun env (Inr r)) = Return (Some ErrConflictRestartPolicyAndAutoRemove)
       \<and> Call_createContainer cfg (CmdRun_hostConfig env r)
            (ContainerIDFile (CmdRun_hostConfig env r)) (flName r) \<in> set (fst (CmdRun env (Inr r)))
       \<and> Call_removeContainer cid True False True \<notin> set (fst (CmdRun env (Inr r)))"
proof -
  let ?hc = "CmdRun_hostConfig env r"
  let ?sp = "CmdRun_sigProxy r cfg"
  have cr: "CmdRun_created env r cfg ?hc ?sp cid
          = (CmdRun_announce ?sp cfg cid @ (if ?sp then [StopCatch] else []),
             Some ErrConflictRestartPolicyAndAutoRemove)"
    using assms(4,5) by (auto simp: CmdRun_created_def Let_def hostConfig_RestartPolicy)
  have nw: "Call_removeContainer cid True False True \<notin> set (CmdRun_warnings env (hostConfig r))"
    using warnings_events[of "Call_removeContainer cid True False True" env "hostConfig r"] by auto
  have na: "Call_removeContainer cid True False True \<notin> set (CmdRun_announce ?sp cfg cid)"
    using announce_events[of "Call_removeContainer cid True False True" ?sp cfg cid] by auto
  show ?thesis
    by (simp add: CmdRun_created_run[OF assms(1-3)] cr nw na)
qed


subsection \<open>Conflicting options\<close>

text \<open>
  Claim C1 says that a request with auto-remove and the restart policy "always" is refused
  with the conflict error before any create call is made. On the code it is not so: for
  the request \<^verbatim>\<open>--rm --restart=always busybox\<close> the run makes the TTY check, then the
  create call, starts to forward signals, and only then returns
  \<open>ErrConflictRestartPolicyAndAutoRemove\<close>; the container that was created is not
  removed. The two other conflicts (\<open>CmdRun_conflict_attach_detach\<close>,
  \<open>CmdRun_conflict_detach_autoremove\<close>) are returned before the create call.
\<close>

theorem CmdRun_restart_conflict_after_create:
  "CmdRun example_env
     (Inr (example_request\<lparr>flAutoRemove := True,
             hostConfig := example_hostConfig
               \<lparr>RestartPolicy := \<lparr>Name = ''always'', MaximumRetryCount = 0\<rparr>\<rparr>\<rparr>))
   = ([Call_CheckTtyInput False False,
       Call_createContainer example_config
         (example_hostConfig\<lparr>RestartPolicy := \<lparr>Name = ''always'', MaximumRetryCount = 0\<rparr>\<rparr>)
         [] [],
       Call_forwardAllSignals ''4fa6e0f0c678'',
       StopCatch],
      Return (Some ErrConflictRestartPolicyAndAutoRemove))"
  by (simp add: CmdRun_eval example_defs)


subsection \<open>Failure of the start call\<close>

text \<open>
  Claim C7. In every run in which the start call is made and fails with \<open>err\<close> while an
  attach session is open (the task that holds the hijacked connection has been started),
  what follows the start call is, in this order: the cancellation of the context, the
  receive on \<open>errCh\<close> (which blocks until the attach task has delivered), the report of
  the error, and the deferred calls; the context is not cancelled and \<open>errCh\<close> is not
  read before the start call; and \<^verbatim>\<open>CmdRun\<close> returns \<open>runStartContainerErr err\<close>.
\<close>

theorem CmdRun_start_failure_unwinds_session:
  assumes start: "Call_ContainerStart cid \<in> set (fst (CmdRun env (Inr r)))"
      and fails: "ContainerStart env = Some err"
      and session: "Go (HoldHijacked tty i out e) \<in> set (fst (CmdRun env (Inr r)))"
  shows "\<exists>pre post.
           fst (CmdRun env (Inr r))
             = pre @ [Call_ContainerStart cid, CancelFun, Recv errCh, ReportError (Error err) False]
                 @ post
         \<and> Call_ContainerStart cid \<notin> set pre \<and> CancelFun \<notin> set pre \<and> Recv errCh \<notin> set pre
         \<and> (\<forall>x \<in> set post. x = Call_removeContainer cid True False True
                \<or> (\<exists>s. x = Fprintf cli_err s) \<or> x = RespClose \<or> x = StopCatch)
         \<and> snd (CmdRun env (Inr r)) = Return (Some (runStartContainerErr err))"
proof -
  from CmdRun_start_issued[OF start] obtain cfg where
    c: "Image (config r) \<noteq> []" "CmdRun_check env r = Inr cfg" "createContainer env = Inr cid"
       "\<not> (flAutoRemove r \<and> (IsAlways (RestartPolicy (hostConfig r))
                               \<or> IsOnFailure (RestartPolicy (hostConfig r))))"
       "AttachStdin cfg \<or> AttachStdout cfg \<or> AttachStderr cfg \<longrightarrow>
            ContainerAttach env = None \<or> ContainerAttach env = Some ErrPersistEOF"
    by blast
  from CmdRun_hijack_issued[OF session] c(2)
  have attach: "AttachStdin cfg \<or> AttachStdout cfg \<or> AttachStderr cfg" by auto
  let ?hc = "CmdRun_hostConfig env r"
  let ?sp = "CmdRun_sigProxy r cfg"
  let ?pre = "CmdRun_warnings env (hostConfig r)
        @ (if \<not> flDetach r then [Call_CheckTtyInput (AttachStdin (config r)) (Tty (config r))]
           else [])
        @ (if GOOS env = ''windows'' then [Call_getTtySize] else [])
        @ [Call_createContainer cfg ?hc (ContainerIDFile ?hc) (flName r)]
        @ CmdRun_announce ?sp cfg cid
        @ [Call_ContainerAttach cid (CmdRun_options env r cfg), Go (CmdRun_hijack cfg)]"
  let ?post = "CmdRun_deferred env r cfg ?sp cid"
  have cr: "CmdRun_created env r cfg ?hc ?sp cid =
      (CmdRun_announce ?sp cfg cid
         @ [Call_ContainerAttach cid (CmdRun_options env r cfg), Go (CmdRun_hijack cfg)]
         @ [Call_ContainerStart cid] @ [CancelFun, Recv errCh]
         @ [ReportError (Error err) False] @ ?post,
       Some (runStartContainerErr err))"
    using CmdRun_created_to_start[of r ?hc cfg env ?sp cid] c(4,5) attach fails
    by (simp add: hostConfig_RestartPolicy)
  have run: "CmdRun env (Inr r) =
      (?pre @ [Call_ContainerStart cid, CancelFun, Recv errCh, ReportError (Error err) False] @ ?post,
       Return (Some (runStartContainerErr err)))"
    by (simp add: CmdRun_created_run[OF c(1-3)] cr)
  have p1: "Call_ContainerStart cid \<notin> set ?pre"
    by (simp add: no_start)
  have p2: "CancelFun \<notin> set ?pre"
    by (simp add: no_cancel)
  have p3: "Recv errCh \<notin> set ?pre"
    by (simp add: no_recv)
  have p4: "\<forall>x \<in> set ?post. x = Call_removeContainer cid True False True
                \<or> (\<exists>s. x = Fprintf cli_err s) \<or> x = RespClose \<or> x = StopCatch"
    using deferred_events[of _ env r cfg ?sp cid] by blast
  show ?thesis
    apply (rule exI[of _ ?pre])
    apply (rule exI[of _ ?post])
    using run p1 p2 p3 p4 by simp
qed

theorem CmdRun_start_failure_unwinds_session_witness:
  "Call_ContainerStart ''4fa6e0f0c678''
     \<in> set (fst (CmdRun (example_env\<lparr>ContainerStart := Some (ErrorString
           ''Error response from daemon: Container command not found or does not exist.'')\<rparr>)
         (Inr example_request)))
   \<and> Go (HoldHijacked False None (Some cli_out) (Some cli_err))
     \<in> set (fst (CmdRun (example_env\<lparr>ContainerStart := Some (ErrorString
           ''Error response from daemon: Container command not found or does not exist.'')\<rparr>)
         (Inr example_request)))
   \<and> snd (CmdRun (example_env\<lparr>ContainerStart := Some (ErrorString
           ''Error response from daemon: Container command not found or does not exist.'')\<rparr>)
         (Inr example_request))
      = Return (Some (runStartContainerErr (ErrorString
           ''Error response from daemon: Container command not found or does not exist.'')))"
proof -
  let ?err = "ErrorString
           ''Error response from daemon: Container command not found or does not exist.''"
  let ?env = "example_env\<lparr>ContainerStart := Some ?err\<rparr>"
  have h1: "Call_ContainerStart ''4fa6e0f0c678'' \<in> set (fst (CmdRun ?env (Inr example_request)))"
    by (simp add: CmdRun_eval example_defs)
  have h2: "ContainerStart ?env = Some ?err"
    by simp
  have h3: "Go (HoldHijacked False None (Some cli_out) (Some cli_err))
              \<in> set (fst (CmdRun ?env (Inr example_request)))"
    by (simp add: CmdRun_eval example_defs)
  from CmdRun_start_failure_unwinds_session[OF h1 h2 h3]
  have "snd (CmdRun ?env (Inr example_request)) = Return (Some (runStartContainerErr ?err))"
    by blast
  with h1 h3 show ?thesis by simp
qed

subsection \<open>Where the exit status comes from\<close>

text \<open>
  Claim C6. In an attached run (stdout or stderr attached, not detached) whose start call
  succeeded and whose attach session ended without error: with auto-remove the wait call
  is made first and, when it succeeds, the inspect call, and the status returned is the
  one of the inspect call, whatever the wait call reported; a failure of the wait call is
  returned through \<open>runStartContainerErr\<close>. Without auto-remove and without a TTY only
  the wait call is made and its status is returned. Without auto-remove and with a TTY
  only the inspect call is made, and its status is returned. A status of zero is returned
  as \<^verbatim>\<open>nil\<close>, any other as a \<open>StatusError\<close>.
\<close>

theorem CmdRun_exit_status_source:
  assumes start: "Call_ContainerStart cid \<in> set (fst (CmdRun env (Inr r)))"
      and started: "ContainerStart env = None"
      and session: "ContainerAttach env = None" "holdHijackedConnection env = None"
      and attached: "\<not> flDetach r" "AttachStdout (config r) \<or> AttachStderr (config r)"
  shows "(flAutoRemove r \<longrightarrow>
            (\<forall>e. ContainerWait env = Inl e \<longrightarrow>
                 filter status_call (fst (CmdRun env (Inr r))) = [Call_ContainerWait cid]
               \<and> snd (CmdRun env (Inr r)) = Return (Some (runStartContainerErr e)))
          \<and> (\<forall>w. ContainerWait env = Inr w \<longrightarrow>
                 filter status_call (fst (CmdRun env (Inr r)))
                   = [Call_ContainerWait cid, Call_getExitCode cid]
               \<and> (\<forall>e. getExitCode env = Inl e \<longrightarrow> snd (CmdRun env (Inr r)) = Return (Some e))
               \<and> (\<forall>running s. getExitCode env = Inr (running, s) \<longrightarrow>
                     snd (CmdRun env (Inr r))
                       = Return (if s \<noteq> 0 then Some (StatusError s) else None))))
       \<and> (\<not> flAutoRemove r \<and> \<not> Tty (config r) \<longrightarrow>
            filter status_call (fst (CmdRun env (Inr r))) = [Call_ContainerWait cid]
          \<and> (\<forall>e. ContainerWait env = Inl e \<longrightarrow> snd (CmdRun env (Inr r)) = Return (Some e))
          \<and> (\<forall>s. ContainerWait env = Inr s \<longrightarrow>
                snd (CmdRun env (Inr r)) = Return (if s \<noteq> 0 then Some (StatusError s) else None)))
       \<and> (\<not> flAutoRemove r \<and> Tty (config r) \<longrightarrow>
            filter status_call (fst (CmdRun env (Inr r))) = [Call_getExitCode cid]
          \<and> (\<forall>e. getExitCode env = Inl e \<longrightarrow> snd (CmdRun env (Inr r)) = Return (Some e))
          \<and> (\<forall>running s. getExitCode env = Inr (running, s) \<longrightarrow>
                snd (CmdRun env (Inr r)) = Return (if s \<noteq> 0 then Some (StatusError s) else None)))"
proof -
  from CmdRun_start_issued[OF start] obtain cfg where
    c: "Image (config r) \<noteq> []" "CmdRun_check env r = Inr cfg" "createContainer env = Inr cid"
       "\<not> (flAutoRemove r \<and> (IsAlways (RestartPolicy (hostConfig r))
                               \<or> IsOnFailure (RestartPolicy (hostConfig r))))"
    by blast
  have cfg: "cfg = (config r)\<lparr>ArgsEscaped := False\<rparr>"
    using check_not_detached[OF c(2) attached(1)] .
  have out: "AttachStdout cfg \<or> AttachStderr cfg" and tty: "Tty cfg = Tty (config r)"
    using attached(2) by (simp_all add: cfg)
  let ?hc = "CmdRun_hostConfig env r"
  let ?sp = "CmdRun_sigProxy r cfg"
  let ?st = "CmdRun_attached env (flAutoRemove r) (Tty (config r)) cid"
  have cr: "filter status_call (fst (CmdRun_created env r cfg ?hc ?sp cid)) = fst ?st
          \<and> snd (CmdRun_created env r cfg ?hc ?sp cid) = snd ?st"
    using CmdRun_created_to_start[of r ?hc cfg env ?sp cid] c(4) session(1) started
      CmdRun_started_attached[OF session out, of "flAutoRemove r" cid]
    by (simp add: hostConfig_RestartPolicy no_status_call tty)
  have run: "filter status_call (fst (CmdRun env (Inr r))) = fst ?st
           \<and> snd (CmdRun env (Inr r)) = Return (snd ?st)"
    using cr by (simp add: CmdRun_created_run[OF c(1-3)] no_status_call)
  show ?thesis
    unfolding run[THEN conjunct1] run[THEN conjunct2]
    by (auto simp: CmdRun_attached_def CmdRun_status_def split: sum.splits prod.splits)
qed

theorem CmdRun_exit_status_source_witness:
  "snd (CmdRun (example_env\<lparr>getExitCode := Inr (False, 3)\<rparr>)
          (Inr (example_request\<lparr>flAutoRemove := True\<rparr>)))
     = Return (Some (StatusError 3))
   \<and> filter status_call (fst (CmdRun (example_env\<lparr>getExitCode := Inr (False, 3)\<rparr>)
          (Inr (example_request\<lparr>flAutoRemove := True\<rparr>))))
     = [Call_ContainerWait ''4fa6e0f0c678'', Call_getExitCode ''4fa6e0f0c678'']
   \<and> snd (CmdRun (example_env\<lparr>ContainerWait := Inl (ErrorString ''connection lost'')\<rparr>)
          (Inr (example_request\<lparr>flAutoRemove := True\<rparr>)))
     = Return (Some (StatusError 125))
   \<and> snd (CmdRun (example_env\<lparr>ContainerWait := Inr 2\<rparr>) (Inr example_request))
     = Return (Some (StatusError 2))
   \<and> filter status_call (fst (CmdRun (example_env\<lparr>ContainerWait := Inr 2\<rparr>) (Inr example_request)))
     = [Call_ContainerWait ''4fa6e0f0c678'']
   \<and> snd (CmdRun example_env (Inr (example_request\<lparr>config := example_config\<lparr>Tty := True\<rparr>\<rparr>)))
     = Return None
   \<and> filter status_call
        (fst (CmdRun example_env (Inr (example_request\<lparr>config := example_config\<lparr>Tty := True\<rparr>\<rparr>))))
     = [Call_getExitCode ''4fa6e0f0c678'']"
proof -
  let ?e1 = "example_env\<lparr>getExitCode := Inr (False, 3)\<rparr>"
  let ?e1' = "example_env\<lparr>ContainerWait := Inl (ErrorString ''connection lost'')\<rparr>"
  let ?r1 = "example_request\<lparr>flAutoRemove := True\<rparr>"
  let ?e2 = "example_env\<lparr>ContainerWait := Inr 2\<rparr>"
  let ?r3 = "example_request\<lparr>config := example_config\<lparr>Tty := True\<rparr>\<rparr>"
  have s1: "Call_ContainerStart ''4fa6e0f0c678'' \<in> set (fst (CmdRun ?e1 (Inr ?r1)))"
    by (simp add: CmdRun_eval example_defs)
  have s1': "Call_ContainerStart ''4fa6e0f0c678'' \<in> set (fst (CmdRun ?e1' (Inr ?r1)))"
    by (simp add: CmdRun_eval example_defs)
  have s2: "Call_ContainerStart ''4fa6e0f0c678'' \<in> set (fst (CmdRun ?e2 (Inr example_request)))"
    by (simp add: CmdRun_eval example_defs)
  have s3: "Call_ContainerStart ''4fa6e0f0c678'' \<in> set (fst (CmdRun example_env (Inr ?r3)))"
    by (simp add: CmdRun_eval example_defs)
  have env: "ContainerStart example_env = None" "ContainerAttach example_env = None"
      "holdHijackedConnection example_env = None" "ContainerWait example_env = Inr 0"
      "getExitCode example_env = Inr (False, 0)"
    by (simp_all add: example_env_def)
  have req: "\<not> flDetach example_request" "\<not> flAutoRemove example_request"
      "config example_request = example_config" "AttachStdout example_config"
      "\<not> Tty example_config"
    by (simp_all add: example_request_def example_config_def)
  have a: "snd (CmdRun ?e1 (Inr ?r1)) = Return (Some (StatusError 3))
         \<and> filter status_call (fst (CmdRun ?e1 (Inr ?r1)))
             = [Call_ContainerWait ''4fa6e0f0c678'', Call_getExitCode ''4fa6e0f0c678'']"
    using CmdRun_exit_status_source[OF s1] env req
    by auto
  have a': "snd (CmdRun ?e1' (Inr ?r1))
              = Return (Some (runStartContainerErr (ErrorString ''connection lost'')))"
    using CmdRun_exit_status_source[OF s1'] env req
    by auto
  have b: "snd (CmdRun ?e2 (Inr example_request)) = Return (Some (StatusError 2))
         \<and> filter status_call (fst (CmdRun ?e2 (Inr example_request)))
             = [Call_ContainerWait ''4fa6e0f0c678'']"
    using CmdRun_exit_status_source[OF s2] env req
    by auto
  have c: "snd (CmdRun example_env (Inr ?r3)) = Return None
         \<and> filter status_call (fst (CmdRun example_env (Inr ?r3)))
             = [Call_getExitCode ''4fa6e0f0c678'']"
    using CmdRun_exit_status_source[OF s3] env req
    by auto
  have cl: "runStartContainerErr (ErrorString ''connection lost'') = StatusError 125"
    by (simp add: runStartContainerErr_def TrimPrefix_def HasPrefix_def)
  from a a' b c cl show ?thesis by simp
qed


subsection \<open>The background tasks of a run\<close>





















subsection \<open>Runs without stdout and stderr\<close>








subsection \<open>Errors of the attach session\<close>

text \<open>
  Claim C8, as amended. In every run that makes the attach call: an error of the attach
  call other than \<open>ErrPersistEOF\<close> (connection closed) is returned unchanged at once,
  and the container is not started. With no error, or with \<open>ErrPersistEOF\<close>, the run
  goes on to the start call; once the start call has succeeded, an error of the stream
  copy is returned unchanged, and when the stream copy ends without error the
  \<open>ErrPersistEOF\<close> kept from the attach call is returned as the error of the run.
\<close>

theorem CmdRun_attach_errors:
  assumes attach: "Call_ContainerAttach cid opts \<in> set (fst (CmdRun env (Inr r)))"
  shows "(\<forall>e. ContainerAttach env = Some e \<and> e \<noteq> ErrPersistEOF \<longrightarrow>
             snd (CmdRun env (Inr r)) = Return (Some e)
           \<and> Call_ContainerStart cid \<notin> set (fst (CmdRun env (Inr r))))
       \<and> (ContainerAttach env = None \<or> ContainerAttach env = Some ErrPersistEOF \<longrightarrow>
             Call_ContainerStart cid \<in> set (fst (CmdRun env (Inr r)))
           \<and> (ContainerStart env = None \<longrightarrow>
                (\<forall>e. holdHijackedConnection env = Some e \<longrightarrow>
                      snd (CmdRun env (Inr r)) = Return (Some e))
              \<and> (holdHijackedConnection env = None \<and> ContainerAttach env = Some ErrPersistEOF \<longrightarrow>
                      snd (CmdRun env (Inr r)) = Return (Some ErrPersistEOF))))"
proof -
  from CmdRun_attach_issued[OF attach] obtain cfg where
    c: "Image (config r) \<noteq> []" "CmdRun_check env r = Inr cfg" "createContainer env = Inr cid"
       "\<not> (flAutoRemove r \<and> (IsAlways (RestartPolicy (hostConfig r))
                               \<or> IsOnFailure (RestartPolicy (hostConfig r))))"
       "AttachStdin cfg \<or> AttachStdout cfg \<or> AttachStderr cfg"
    by blast
  let ?hc = "CmdRun_hostConfig env r"
  let ?sp = "CmdRun_sigProxy r cfg"
  note run = CmdRun_created_run[OF c(1-3)]
  have a: "snd (CmdRun env (Inr r)) = Return (Some e)
           \<and> Call_ContainerStart cid \<notin> set (fst (CmdRun env (Inr r)))"
    if "ContainerAttach env = Some e \<and> e \<noteq> ErrPersistEOF" for e
    using that c(4,5)
    by (auto simp: run CmdRun_created_def Let_def hostConfig_RestartPolicy no_start)
  have b: "Call_ContainerStart cid \<in> set (fst (CmdRun env (Inr r)))
           \<and> (ContainerStart env = None \<longrightarrow>
                (\<forall>e. holdHijackedConnection env = Some e \<longrightarrow>
                      snd (CmdRun env (Inr r)) = Return (Some e))
              \<and> (holdHijackedConnection env = None \<and> ContainerAttach env = Some ErrPersistEOF \<longrightarrow>
                      snd (CmdRun env (Inr r)) = Return (Some ErrPersistEOF)))"
    if ok: "ContainerAttach env = None \<or> ContainerAttach env = Some ErrPersistEOF"
  proof -
    note cr = CmdRun_created_to_start[of r ?hc cfg env ?sp cid]
    have cr': "CmdRun_created env r cfg ?hc ?sp cid = (case ContainerStart env of
         Some err \<Rightarrow>
           (CmdRun_announce ?sp cfg cid
              @ [Call_ContainerAttach cid (CmdRun_options env r cfg), Go (CmdRun_hijack cfg)]
              @ [Call_ContainerStart cid]
              @ [CancelFun, Recv errCh]
              @ [ReportError (Error err) False] @ CmdRun_deferred env r cfg ?sp cid,
            Some (runStartContainerErr err))
       | None \<Rightarrow>
           (CmdRun_announce ?sp cfg cid
              @ [Call_ContainerAttach cid (CmdRun_options env r cfg), Go (CmdRun_hijack cfg)]
              @ [Call_ContainerStart cid]
              @ fst (CmdRun_started env (flAutoRemove r) cfg cid)
              @ CmdRun_deferred env r cfg ?sp cid,
            snd (CmdRun_started env (flAutoRemove r) cfg cid)))"
      using cr c(4,5) ok by (simp add: hostConfig_RestartPolicy)
    have 1: "Call_ContainerStart cid \<in> set (fst (CmdRun env (Inr r)))"
      by (simp add: run cr' split: option.splits)
    have 2: "snd (CmdRun env (Inr r)) = Return (Some e)"
      if "ContainerStart env = None" "errCh_result env = Some e" for e
      using that c(5)
      by (simp add: run cr' CmdRun_started_def Let_def)
    show ?thesis
      using 1 2 by (auto simp: errCh_result_def)
  qed
  from a b show ?thesis by blast
qed

theorem CmdRun_attach_errors_witness:
  "snd (CmdRun (example_env\<lparr>ContainerAttach := Some (ErrorString ''connection refused'')\<rparr>)
          (Inr example_request))
     = Return (Some (ErrorString ''connection refused''))
   \<and> Call_ContainerStart ''4fa6e0f0c678''
       \<notin> set (fst (CmdRun (example_env\<lparr>ContainerAttach := Some (ErrorString ''connection refused'')\<rparr>)
                  (Inr example_request)))
   \<and> snd (CmdRun (example_env\<lparr>holdHijackedConnection := Some (ErrorString ''connection reset by peer'')\<rparr>)
          (Inr example_request))
     = Return (Some (ErrorString ''connection reset by peer''))
   \<and> Call_ContainerStart ''4fa6e0f0c678''
       \<in> set (fst (CmdRun (example_env\<lparr>ContainerAttach := Some ErrPersistEOF\<rparr>) (Inr example_request)))
   \<and> snd (CmdRun (example_env\<lparr>ContainerAttach := Some ErrPersistEOF\<rparr>) (Inr example_request))
     = Return (Some ErrPersistEOF)"
proof -
  let ?o = "\<lparr>Stream = True, Stdin = False, Stdout = True, Stderr = True, AttachDetachKeys = []\<rparr>"
  let ?e1 = "example_env\<lparr>ContainerAttach := Some (ErrorString ''connection refused'')\<rparr>"
  let ?e2 = "example_env\<lparr>holdHijackedConnection := Some (ErrorString ''connection reset by peer'')\<rparr>"
  let ?e3 = "example_env\<lparr>ContainerAttach := Some ErrPersistEOF\<rparr>"
  have env: "ContainerStart example_env = None" "ContainerAttach example_env = None"
      "holdHijackedConnection example_env = None"
    by (simp_all add: example_env_def)
  have a1: "Call_ContainerAttach ''4fa6e0f0c678'' ?o \<in> set (fst (CmdRun ?e1 (Inr example_request)))"
    by (simp add: CmdRun_eval example_defs)
  have a2: "Call_ContainerAttach ''4fa6e0f0c678'' ?o \<in> set (fst (CmdRun ?e2 (Inr example_request)))"
    by (simp add: CmdRun_eval example_defs)
  have a3: "Call_ContainerAttach ''4fa6e0f0c678'' ?o \<in> set (fst (CmdRun ?e3 (Inr example_request)))"
    by (simp add: CmdRun_eval example_defs)
  have 1: "snd (CmdRun ?e1 (Inr example_request)) = Return (Some (ErrorString ''connection refused''))
         \<and> Call_ContainerStart ''4fa6e0f0c678'' \<notin> set (fst (CmdRun ?e1 (Inr example_request)))"
    using CmdRun_attach_errors[OF a1] by simp
  have 2: "snd (CmdRun ?e2 (Inr example_request))
             = Return (Some (ErrorString ''connection reset by peer''))"
    using CmdRun_attach_errors[OF a2] env by simp
  have 3: "Call_ContainerStart ''4fa6e0f0c678'' \<in> set (fst (CmdRun ?e3 (Inr example_request)))
         \<and> snd (CmdRun ?e3 (Inr example_request)) = Return (Some ErrPersistEOF)"
    using CmdRun_attach_errors[OF a3] env by simp
  from 1 2 3 show ?thesis by simp
qed


text \<open>
  Claim C8 as it is written fails: when the attach call reports that the connection was
  closed and the stream copy then ends without error, the run does not end cleanly; the
  kept \<open>ErrPersistEOF\<close> is what \<^verbatim>\<open>CmdRun\<close> returns.
\<close>

theorem CmdRun_connection_closed_counterexample:
  "holdHijackedConnection (example_env\<lparr>ContainerAttach := Some ErrPersistEOF\<rparr>) = None
   \<and> ContainerStart (example_env\<lparr>ContainerAttach := Some ErrPersistEOF\<rparr>) = None
   \<and> CmdRun (example_env\<lparr>ContainerAttach := Some ErrPersistEOF\<rparr>) (Inr example_request)
     = ([Call_CheckTtyInput False False,
         Call_createContainer example_config example_hostConfig [] [],
         Call_forwardAllSignals ''4fa6e0f0c678'',
         Call_ContainerAttach ''4fa6e0f0c678''
           \<lparr>Stream = True, Stdin = False, Stdout = True, Stderr = True, AttachDetachKeys = []\<rparr>,
         Go (HoldHijacked False None (Some cli_out) (Some cli_err)),
         Call_ContainerStart ''4fa6e0f0c678'',
         Recv errCh,
         Debugf ''Error hijack: persistent connection closed'',
         RespClose, StopCatch],
        Return (Some ErrPersistEOF))"
  by (simp add: CmdRun_eval example_defs)

end
